theory Spec2Isabelle
  imports Main "HOL-Library.Sublist" "HOL-Library.Multiset" "HOL-Library.Word"
begin

unbundle bit_operations_syntax

section \<open>Go strings\<close>

text \<open>
  A Go string is modelled by the sequence of Unicode code points (runes) it decodes to.
  Every string operation of \<^verbatim>\<open>internal/claude/sessions.go\<close> either works rune by rune
  (\<^verbatim>\<open>regexp\<close>, \<^verbatim>\<open>strings.TrimSpace\<close>, \<^verbatim>\<open>strings.ToLower\<close>) or searches for an ASCII
  pattern (\<^verbatim>\<open>"-"\<close>, \<^verbatim>\<open>".jsonl"\<close>, \<^verbatim>\<open>"agent-"\<close>), for which bytes and runes agree.
  \<open>str\<close> embeds an ASCII literal.
\<close>

type_synonym rune = nat
type_synonym gostring = "rune list"

definition str :: "string \<Rightarrow> gostring" where
  "str s = map of_char s"

text \<open>\<^verbatim>\<open>strings.HasPrefix\<close>, \<^verbatim>\<open>strings.HasSuffix\<close>, \<^verbatim>\<open>strings.TrimSuffix\<close>.\<close>

definition HasPrefix :: "gostring \<Rightarrow> gostring \<Rightarrow> bool" where
  "HasPrefix s p = (take (length p) s = p)"

definition HasSuffix :: "gostring \<Rightarrow> gostring \<Rightarrow> bool" where
  "HasSuffix s p = (length p \<le> length s \<and> drop (length s - length p) s = p)"

definition TrimSuffix :: "gostring \<Rightarrow> gostring \<Rightarrow> gostring" where
  "TrimSuffix s p = (if HasSuffix s p then take (length s - length p) s else s)"

text \<open>\<^verbatim>\<open>strings.Contains(s, substr)\<close>: \<open>substr\<close> occurs at some position of \<open>s\<close>.\<close>

fun Contains :: "gostring \<Rightarrow> gostring \<Rightarrow> bool" where
  "Contains [] sub = (sub = [])"
| "Contains (c # cs) sub = (HasPrefix (c # cs) sub \<or> Contains cs sub)"

text \<open>
  \<^verbatim>\<open>strings.ReplaceAll(s, old, new)\<close>: the non-overlapping occurrences of \<open>old\<close> are
  replaced from left to right; an empty \<open>old\<close> matches before every rune and at the end.
\<close>

function ReplaceAll :: "gostring \<Rightarrow> gostring \<Rightarrow> gostring \<Rightarrow> gostring" where
  "ReplaceAll s old new =
     (if old = [] then new @ concat (map (\<lambda>c. c # new) s)
      else if s = [] then []
      else if HasPrefix s old then new @ ReplaceAll (drop (length old) s) old new
      else hd s # ReplaceAll (tl s) old new)"
  by pat_completeness auto
termination
  by (relation "measure (\<lambda>(s, old, new). length s)") auto

declare ReplaceAll.simps [simp del]

section \<open>Path codec\<close>

text \<open>
  \<^verbatim>\<open>decodePath\<close>: a leading dash is replaced by a slash (\<^verbatim>\<open>"/" + encoded[1:]\<close>), then
  every remaining dash is replaced by a slash.
\<close>

definition decodePath :: "gostring \<Rightarrow> gostring" where
  "decodePath encoded =
     (let encoded' = (if HasPrefix encoded (str ''-'') then str ''/'' @ drop 1 encoded
                      else encoded)
      in ReplaceAll encoded' (str ''-'') (str ''/''))"

section \<open>Regular expressions (package regexp)\<close>

text \<open>
  The syntax of the regular expressions that \<^verbatim>\<open>gasTownPattern\<close> uses: literals, character
  classes, concatenation, greedy and non-greedy repetition, the greedy option, numbered
  capturing groups (a non-capturing group is plain nesting) and \<^verbatim>\<open>$\<close>, which without the
  \<^verbatim>\<open>m\<close> flag matches at the end of the text only.
\<close>

datatype regex =
    Lit rune
  | Class "rune \<Rightarrow> bool"
  | Seq regex regex
  | Star regex
  | StarLazy regex
  | Opt regex
  | Group nat regex
  | EndText

definition Plus :: "regex \<Rightarrow> regex" where
  "Plus r = Seq r (Star r)"

definition PlusLazy :: "regex \<Rightarrow> regex" where
  "PlusLazy r = Seq r (StarLazy r)"

fun Lits :: "gostring \<Rightarrow> regex \<Rightarrow> regex" where
  "Lits [] r = r"
| "Lits (a # as) r = Seq (Lit a) (Lits as r)"

text \<open>
  Package \<^verbatim>\<open>regexp\<close> returns, among the matches that begin leftmost, the one a
  backtracking search finds first. \<open>matches r s c\<close> lists, in the order in which that search
  tries them, the ways \<open>r\<close> matches at the front of \<open>s\<close>: each with the rest of the text and
  the captures (group number and captured text, the latest first). A greedy repetition
  tries one more iteration before it tries to stop, a non-greedy one stops first; an
  iteration that consumes nothing is not repeated.
\<close>

type_synonym caps = "(nat \<times> gostring) list"

function matches :: "regex \<Rightarrow> gostring \<Rightarrow> caps \<Rightarrow> (gostring \<times> caps) list" where
  "matches (Lit a) s c = (case s of [] \<Rightarrow> [] | x # xs \<Rightarrow> if x = a then [(xs, c)] else [])"
| "matches (Class p) s c = (case s of [] \<Rightarrow> [] | x # xs \<Rightarrow> if p x then [(xs, c)] else [])"
| "matches (Seq r1 r2) s c =
     concat (map (\<lambda>m. matches r2 (fst m) (snd m)) (matches r1 s c))"
| "matches (Star r) s c =
     concat (map (\<lambda>m. if length (fst m) < length s then matches (Star r) (fst m) (snd m) else [])
                 (matches r s c)) @ [(s, c)]"
| "matches (StarLazy r) s c =
     (s, c) #
     concat (map (\<lambda>m. if length (fst m) < length s then matches (StarLazy r) (fst m) (snd m)
                        else [])
                 (matches r s c))"
| "matches (Opt r) s c = matches r s c @ [(s, c)]"
| "matches (Group n r) s c =
     map (\<lambda>m. (fst m, (n, take (length s - length (fst m)) s) # snd m)) (matches r s c)"
| "matches EndText s c = (if s = [] then [(s, c)] else [])"
  by pat_completeness auto
termination
  by (relation "measures [\<lambda>(r, s, c). size r, \<lambda>(r, s, c). length s]") auto

text \<open>
  The leftmost match: the first start position at which the expression matches at all, and
  there the first match of the search. The result is the matched text with the captures.
\<close>

fun findFrom :: "regex \<Rightarrow> gostring \<Rightarrow> (gostring \<times> caps) option" where
  "findFrom r [] = (case matches r [] [] of [] \<Rightarrow> None | m # _ \<Rightarrow> Some ([], snd m))"
| "findFrom r (x # xs) =
     (case matches r (x # xs) [] of
        [] \<Rightarrow> findFrom r xs
      | m # _ \<Rightarrow> Some (take (length (x # xs) - length (fst m)) (x # xs), snd m))"

text \<open>
  \<^verbatim>\<open>FindStringSubmatch\<close>: \<^verbatim>\<open>nil\<close> (\<open>None\<close>) when there is no match, else the slice
  holding the matched text and then the text of each of the \<open>n\<close> groups, the empty string
  for a group that took no part in the match.
\<close>

definition FindStringSubmatch :: "regex \<Rightarrow> nat \<Rightarrow> gostring \<Rightarrow> gostring list option" where
  "FindStringSubmatch r n s =
     (case findFrom r s of
        None \<Rightarrow> None
      | Some (whole, c) \<Rightarrow>
          Some (whole # map (\<lambda>i. case map_of c i of None \<Rightarrow> [] | Some t \<Rightarrow> t) [1..<Suc n]))"

section \<open>Beacon matcher\<close>

definition bullet :: rune where
  "bullet = 8226"

text \<open>The Perl class \<^verbatim>\<open>\s\<close> of package \<^verbatim>\<open>regexp\<close>: tab, newline, form feed, return, space.\<close>

definition reSpace :: "rune \<Rightarrow> bool" where
  "reSpace c = (c = 9 \<or> c = 10 \<or> c = 12 \<or> c = 13 \<or> c = 32)"

text \<open>
  \<^verbatim>\<open>\[GAS TOWN\]\s+([^\s\<bullet>]+)\s*(?:\<bullet>\s*([^\<bullet>]+?)\s*)?(?:\<bullet>\s*(\S+))?\s*$\<close>
  where \<^verbatim>\<open>\<bullet>\<close> stands for the bullet U+2022.
\<close>

definition gasTownPattern :: regex where
  "gasTownPattern =
     Lits (str ''[GAS TOWN]'')
      (Seq (Plus (Class reSpace))
      (Seq (Group 1 (Plus (Class (\<lambda>c. \<not> reSpace c \<and> c \<noteq> bullet))))
      (Seq (Star (Class reSpace))
      (Seq (Opt (Seq (Lit bullet)
                (Seq (Star (Class reSpace))
                (Seq (Group 2 (PlusLazy (Class (\<lambda>c. c \<noteq> bullet))))
                     (Star (Class reSpace))))))
      (Seq (Opt (Seq (Lit bullet)
                (Seq (Star (Class reSpace))
                     (Group 3 (Plus (Class (\<lambda>c. \<not> reSpace c)))))))
      (Seq (Star (Class reSpace))
           EndText))))))"

text \<open>
  \<^verbatim>\<open>unicode.IsSpace\<close>: the Latin-1 spaces and the code points with the Unicode property
  White Space.
\<close>

definition isSpace :: "rune \<Rightarrow> bool" where
  "isSpace c = ((9 \<le> c \<and> c \<le> 13) \<or> c = 32 \<or> c = 133 \<or> c = 160 \<or> c = 5760 \<or>
                (8192 \<le> c \<and> c \<le> 8202) \<or> c = 8232 \<or> c = 8233 \<or> c = 8239 \<or>
                c = 8287 \<or> c = 12288)"

text \<open>\<^verbatim>\<open>strings.TrimSpace\<close>: all leading and trailing white space removed.\<close>

definition TrimSpace :: "gostring \<Rightarrow> gostring" where
  "TrimSpace s = rev (dropWhile isSpace (rev (dropWhile isSpace s)))"

text \<open>
  The beacon lookup of \<^verbatim>\<open>parseSession\<close>: on a match the role is the first group and the
  topic the second group with its white space trimmed (the slice of submatches always has
  four entries, so \<^verbatim>\<open>len(match) > 2\<close> holds).
\<close>

definition beaconMatch :: "gostring \<Rightarrow> (gostring \<times> gostring) option" where
  "beaconMatch msgStr =
     (case FindStringSubmatch gasTownPattern 3 msgStr of
        None \<Rightarrow> None
      | Some match \<Rightarrow>
          Some (match ! 1, if length match > 2 then TrimSpace (match ! 2) else []))"

text \<open>
  The two list traversals inside \<open>matches\<close>, named so that a match on a given text can be
  computed by rewriting.
\<close>

definition matchesEach :: "regex \<Rightarrow> (gostring \<times> caps) list \<Rightarrow> (gostring \<times> caps) list" where
  "matchesEach r ms = concat (map (\<lambda>m. matches r (fst m) (snd m)) ms)"

definition starEach :: "regex \<Rightarrow> nat \<Rightarrow> (gostring \<times> caps) list \<Rightarrow> (gostring \<times> caps) list" where
  "starEach r n ms =
     concat (map (\<lambda>m. if length (fst m) < n then matches r (fst m) (snd m) else []) ms)"

declare matches.simps [simp del]

section \<open>Record decoder (package encoding/json)\<close>

text \<open>
  A JSON document is modelled by the value it denotes. A byte slice handed to
  \<^verbatim>\<open>json.Unmarshal\<close> is either such a document or not valid JSON (the empty line included),
  in which case \<^verbatim>\<open>Unmarshal\<close> returns a syntax error and stores nothing.
\<close>

datatype json =
    JNull
  | JBool bool
  | JNumber gostring
  | JString gostring
  | JArray "json list"
  | JObject "(gostring \<times> json) list"

datatype jsonText = Invalid | Valid json

datatype error = SyntaxError | UnmarshalTypeError | PathError gostring

text \<open>
  The fields of the anonymous structs of \<^verbatim>\<open>sessions.go\<close> are Go strings, and one
  \<^verbatim>\<open>json.RawMessage\<close>. A struct type is the list of its JSON field names with their kinds;
  a struct value lists the fields that were stored, every other field has its zero value.
\<close>

datatype fieldKind = StringField | RawField

datatype fieldValue = VString gostring | VRaw json

type_synonym structType = "(gostring \<times> fieldKind) list"
type_synonym structValue = "(gostring \<times> fieldValue) list"

definition getString :: "structValue \<Rightarrow> gostring \<Rightarrow> gostring" where
  "getString sv name = (case map_of sv name of Some (VString s) \<Rightarrow> s | _ \<Rightarrow> [])"

text \<open>A \<^verbatim>\<open>json.RawMessage\<close> that was never stored is the empty slice (\<open>None\<close>).\<close>

definition getRaw :: "structValue \<Rightarrow> gostring \<Rightarrow> json option" where
  "getRaw sv name = (case map_of sv name of Some (VRaw v) \<Rightarrow> Some v | _ \<Rightarrow> None)"

text \<open>
  An object key selects the field whose name it equals, else the field whose name it
  equals under case folding. Against the ASCII field names used here, folding equates
  the two cases of a letter, the long s (U+017F) with \<^verbatim>\<open>s\<close> and the Kelvin sign (U+212A)
  with \<^verbatim>\<open>k\<close>.
\<close>

definition foldRune :: "rune \<Rightarrow> rune" where
  "foldRune c = (if 65 \<le> c \<and> c \<le> 90 then c + 32
                 else if c = 383 then 115
                 else if c = 8490 then 107
                 else c)"

definition equalFold :: "gostring \<Rightarrow> gostring \<Rightarrow> bool" where
  "equalFold a b = (map foldRune a = map foldRune b)"

definition findField :: "structType \<Rightarrow> gostring \<Rightarrow> (gostring \<times> fieldKind) option" where
  "findField st key =
     (case find (\<lambda>f. fst f = key) st of
        Some f \<Rightarrow> Some f
      | None \<Rightarrow> find (\<lambda>f. equalFold (fst f) key) st)"

text \<open>
  Storing one member of an object. A raw field takes the value as it is, \<^verbatim>\<open>null\<close>
  included. A string field takes a JSON string, is left alone by \<^verbatim>\<open>null\<close>, and any other
  value is a type error: the field is skipped, the earliest such error is kept and
  decoding goes on. A key that selects no field is ignored.
\<close>

fun storeMember :: "structType \<Rightarrow> structValue \<times> error option \<Rightarrow> gostring \<times> json \<Rightarrow>
    structValue \<times> error option" where
  "storeMember st (sv, err) (key, v) =
     (case findField st key of
        None \<Rightarrow> (sv, err)
      | Some (name, RawField) \<Rightarrow> ((name, VRaw v) # sv, err)
      | Some (name, StringField) \<Rightarrow>
          (case v of
             JString s \<Rightarrow> ((name, VString s) # sv, err)
           | JNull \<Rightarrow> (sv, err)
           | _ \<Rightarrow> (sv, if err = None then Some UnmarshalTypeError else err)))"

text \<open>
  \<^verbatim>\<open>json.Unmarshal(data, &entry)\<close> for a struct: the members of an object are stored in
  their order, \<^verbatim>\<open>null\<close> stores nothing, any other value is a type error.
\<close>

fun Unmarshal :: "structType \<Rightarrow> jsonText \<Rightarrow> structValue \<times> error option" where
  "Unmarshal st Invalid = ([], Some SyntaxError)"
| "Unmarshal st (Valid JNull) = ([], None)"
| "Unmarshal st (Valid (JObject members)) = foldl (storeMember st) ([], None) members"
| "Unmarshal st (Valid _) = ([], Some UnmarshalTypeError)"

text \<open>\<^verbatim>\<open>json.Unmarshal(data, &str)\<close> for a string variable that holds the empty string.\<close>

fun UnmarshalString :: "jsonText \<Rightarrow> gostring \<times> error option" where
  "UnmarshalString Invalid = ([], Some SyntaxError)"
| "UnmarshalString (Valid (JString s)) = (s, None)"
| "UnmarshalString (Valid JNull) = ([], None)"
| "UnmarshalString (Valid _) = ([], Some UnmarshalTypeError)"

text \<open>The three anonymous struct types.\<close>

definition summaryEntry :: structType where
  "summaryEntry = [(str ''type'', StringField), (str ''summary'', StringField)]"

definition userEntry :: structType where
  "userEntry = [(str ''type'', StringField), (str ''sessionId'', StringField),
                (str ''timestamp'', StringField), (str ''message'', RawField)]"

definition contentObj :: structType where
  "contentObj = [(str ''content'', StringField), (str ''role'', StringField)]"

text \<open>
  \<^verbatim>\<open>extractMessageContent\<close>. The raw message is empty (\<open>None\<close>) or a JSON value taken from a
  valid document.
\<close>

definition extractMessageContent :: "json option \<Rightarrow> gostring" where
  "extractMessageContent msg =
     (case msg of
        None \<Rightarrow> []
      | Some v \<Rightarrow>
          (case UnmarshalString (Valid v) of
             (s, None) \<Rightarrow> s
           | (_, Some _) \<Rightarrow>
               (case Unmarshal contentObj (Valid v) of
                  (obj, None) \<Rightarrow> getString obj (str ''content'')
                | (_, Some _) \<Rightarrow> [])))"

section \<open>Session descriptors\<close>

text \<open>
  A \<^verbatim>\<open>time.Time\<close> is an instant, in nanoseconds since January 1, year 1, 00:00:00 UTC,
  with the offset of its location in seconds. \<^verbatim>\<open>IsZero\<close> and \<^verbatim>\<open>After\<close> look at the
  instant only.
\<close>

record Time =
  instant :: int
  offset :: int

definition zeroTime :: Time where
  "zeroTime = \<lparr>instant = 0, offset = 0\<rparr>"

definition IsZero :: "Time \<Rightarrow> bool" where
  "IsZero t = (instant t = 0)"

definition After :: "Time \<Rightarrow> Time \<Rightarrow> bool" where
  "After t u = (instant t > instant u)"

record SessionInfo =
  ID :: gostring
  Path :: gostring
  Role :: gostring
  Topic :: gostring
  StartTime :: Time
  Summary :: gostring
  IsGasTown :: bool
  FilePath :: gostring

record SessionFilter =
  GasTownOnly :: bool
  FilterRole :: gostring
  FilterRig :: gostring
  FilterPath :: gostring
  Limit :: int

section \<open>Session scanner\<close>

text \<open>
  \<^verbatim>\<open>filepath.Base\<close> on a slash-separated path: trailing slashes are stripped and the
  last element is returned; the empty path gives \<^verbatim>\<open>.\<close> and a path of slashes gives \<^verbatim>\<open>/\<close>.
\<close>

definition Base :: "gostring \<Rightarrow> gostring" where
  "Base path =
     (if path = [] then str ''.''
      else let stripped = rev (dropWhile (\<lambda>c. c = 47) (rev path));
               last_elem = rev (takeWhile (\<lambda>c. c \<noteq> 47) (rev stripped))
           in if last_elem = [] then str ''/'' else last_elem)"

text \<open>
  \<^verbatim>\<open>filepath.Join\<close> of a clean directory path other than the root and a file name, which
  is one path element: the two joined by a slash.
\<close>

definition Join :: "gostring \<Rightarrow> gostring \<Rightarrow> gostring" where
  "Join dir name = dir @ str ''/'' @ name"

text \<open>
  Line 1: when it decodes without error as a record of type \<^verbatim>\<open>summary\<close>, its summary is
  taken.
\<close>

definition firstLine :: "jsonText \<Rightarrow> SessionInfo \<Rightarrow> SessionInfo" where
  "firstLine line info =
     (case Unmarshal summaryEntry line of
        (entry, err) \<Rightarrow>
          if err = None \<and> getString entry (str ''type'') = str ''summary''
          then info\<lparr>Summary := getString entry (str ''summary'')\<rparr>
          else info)"

text \<open>
  The body of \<^verbatim>\<open>if entry.Type == "user"\<close>. \<open>parseTime\<close> stands for
  \<^verbatim>\<open>time.Parse(time.RFC3339, _)\<close>, with \<open>None\<close> for its error.
\<close>

definition setStartTime :: "(gostring \<Rightarrow> Time option) \<Rightarrow> structValue \<Rightarrow> SessionInfo \<Rightarrow> SessionInfo"
  where
  "setStartTime parseTime entry info =
     (if getString entry (str ''timestamp'') \<noteq> [] \<and> IsZero (StartTime info)
      then (case parseTime (getString entry (str ''timestamp'')) of
              Some t \<Rightarrow> info\<lparr>StartTime := t\<rparr>
            | None \<Rightarrow> info)
      else info)"

definition setSessionID :: "structValue \<Rightarrow> SessionInfo \<Rightarrow> SessionInfo" where
  "setSessionID entry info =
     (if ID info = [] \<and> getString entry (str ''sessionId'') \<noteq> []
      then info\<lparr>ID := getString entry (str ''sessionId'')\<rparr>
      else info)"

definition setBeacon :: "structValue \<Rightarrow> SessionInfo \<Rightarrow> SessionInfo" where
  "setBeacon entry info =
     (if \<not> IsGasTown info
      then (case beaconMatch (extractMessageContent (getRaw entry (str ''message''))) of
              Some (role, topic) \<Rightarrow> info\<lparr>IsGasTown := True, Role := role, Topic := topic\<rparr>
            | None \<Rightarrow> info)
      else info)"

definition userRecord :: "(gostring \<Rightarrow> Time option) \<Rightarrow> structValue \<Rightarrow> SessionInfo \<Rightarrow> SessionInfo"
  where
  "userRecord parseTime entry info =
     setBeacon entry (setSessionID entry (setStartTime parseTime entry info))"

text \<open>
  A line after the first that decodes without error: the record is used when its type is
  \<^verbatim>\<open>user\<close>.
\<close>

definition laterLine :: "(gostring \<Rightarrow> Time option) \<Rightarrow> structValue \<Rightarrow> SessionInfo \<Rightarrow> SessionInfo"
  where
  "laterLine parseTime entry info =
     (if getString entry (str ''type'') = str ''user'' then userRecord parseTime entry info
      else info)"

text \<open>
  The loop \<^verbatim>\<open>for scanner.Scan()\<close>. The list holds the lines the scanner delivers, \<open>lineNum\<close>
  counts the lines read so far. The result is the descriptor with the final \<open>lineNum\<close>, the
  number of lines that were read. A line that does not decode is skipped by \<^verbatim>\<open>continue\<close>,
  as line 1 is, so the test that stops the loop is not reached for it.
\<close>

fun scanLines :: "(gostring \<Rightarrow> Time option) \<Rightarrow> nat \<Rightarrow> SessionInfo \<Rightarrow> jsonText list \<Rightarrow>
    SessionInfo \<times> nat" where
  "scanLines parseTime lineNum info [] = (info, lineNum)"
| "scanLines parseTime lineNum info (line # rest) =
     (if lineNum + 1 = 1 then scanLines parseTime (lineNum + 1) (firstLine line info) rest
      else case Unmarshal userEntry line of
        (entry, Some err) \<Rightarrow> scanLines parseTime (lineNum + 1) info rest
      | (entry, None) \<Rightarrow>
          let info' = laterLine parseTime entry info
          in if IsGasTown info' \<and> \<not> IsZero (StartTime info') \<and> lineNum + 1 > 20
             then (info', lineNum + 1)
             else scanLines parseTime (lineNum + 1) info' rest)"

text \<open>
  \<^verbatim>\<open>parseSession\<close>. \<open>file\<close> is the outcome of \<^verbatim>\<open>os.Open\<close>: its error, or the lines the scanner
  delivers from the file (up to the end of the file, or to the line at which reading fails
  or which exceeds the buffer).
\<close>

definition newSessionInfo :: "gostring \<Rightarrow> gostring \<Rightarrow> SessionInfo" where
  "newSessionInfo filePath projectPath =
     \<lparr>ID = TrimSuffix (Base filePath) (str ''.jsonl''), Path = projectPath, Role = [],
      Topic = [], StartTime = zeroTime, Summary = [], IsGasTown = False,
      FilePath = filePath\<rparr>"

definition parseSession :: "(gostring \<Rightarrow> Time option) \<Rightarrow> error + jsonText list \<Rightarrow> gostring \<Rightarrow>
    gostring \<Rightarrow> error + SessionInfo" where
  "parseSession parseTime file filePath projectPath =
     (case file of
        Inl err \<Rightarrow> Inl err
      | Inr lines \<Rightarrow>
          Inr (fst (scanLines parseTime 0 (newSessionInfo filePath projectPath) lines)))"

text \<open>The number of lines \<^verbatim>\<open>parseSession\<close> reads from a file that opened.\<close>

definition linesRead :: "(gostring \<Rightarrow> Time option) \<Rightarrow> jsonText list \<Rightarrow> gostring \<Rightarrow> gostring \<Rightarrow> nat"
  where
  "linesRead parseTime lines filePath projectPath =
     snd (scanLines parseTime 0 (newSessionInfo filePath projectPath) lines)"

text \<open>
  The lines of a file as they are on disk, and what \<^verbatim>\<open>bufio.Scanner\<close> makes of them. A line
  has a number of bytes before its line end and a text; in place of a line the file may
  have a read failure. The scanner of \<^verbatim>\<open>parseSession\<close> has a buffer of at most
  \<^verbatim>\<open>1024*1024\<close> bytes, which has to hold the line with its line end: \<^verbatim>\<open>Scan\<close> returns
  false at a line of that many bytes or more and at a read failure, as it does at the end
  of the file, and \<^verbatim>\<open>parseSession\<close> never looks at \<^verbatim>\<open>scanner.Err()\<close>. So the scanner
  delivers the lines before the first one it cannot deliver.
\<close>

datatype fileLine = FileLine nat jsonText | ReadFailure

definition maxTokenSize :: nat where
  "maxTokenSize = 1024 * 1024"

fun deliverable :: "fileLine \<Rightarrow> bool" where
  "deliverable (FileLine bytes line) = (bytes < maxTokenSize)"
| "deliverable ReadFailure = False"

fun scannerLines :: "fileLine list \<Rightarrow> jsonText list" where
  "scannerLines [] = []"
| "scannerLines (FileLine bytes line # rest) =
     (if bytes < maxTokenSize then line # scannerLines rest else [])"
| "scannerLines (ReadFailure # rest) = []"

text \<open>
  Notions used to state when the scan of a file stops: a line decodes when
  \<^verbatim>\<open>json.Unmarshal\<close> into the record of a later line returns no error; \<open>infoAfter\<close> is the
  descriptor obtained from the first \<open>k\<close> of the lines delivered; the scan of a file
  stops early when it reads fewer lines than the file has on disk.
\<close>

definition decodes :: "jsonText \<Rightarrow> bool" where
  "decodes line = (snd (Unmarshal userEntry line) = None)"

definition infoAfter :: "(gostring \<Rightarrow> Time option) \<Rightarrow> jsonText list \<Rightarrow> gostring \<Rightarrow> gostring \<Rightarrow>
    nat \<Rightarrow> SessionInfo" where
  "infoAfter parseTime lines filePath projectPath k =
     fst (scanLines parseTime 0 (newSessionInfo filePath projectPath) (take k lines))"

definition stopsEarly :: "(gostring \<Rightarrow> Time option) \<Rightarrow> fileLine list \<Rightarrow> gostring \<Rightarrow> gostring \<Rightarrow>
    bool" where
  "stopsEarly parseTime file filePath projectPath =
     (linesRead parseTime (scannerLines file) filePath projectPath < length file)"

text \<open>
  The part of the stop test that looks at the descriptor, and the lines at which the scan
  of \<open>ls\<close>, started with \<open>n\<close> lines read, meets the stop test: line \<open>k\<close> of \<open>ls\<close> is not the
  last one, has a number above 20 and decodes, and the descriptor obtained from the first
  \<open>k\<close> lines has a beacon and a start time.
\<close>

definition stopNow :: "SessionInfo \<Rightarrow> bool" where
  "stopNow i = (IsGasTown i \<and> \<not> IsZero (StartTime i))"

definition earlyAt :: "(gostring \<Rightarrow> Time option) \<Rightarrow> nat \<Rightarrow> SessionInfo \<Rightarrow> jsonText list \<Rightarrow>
    nat \<Rightarrow> bool" where
  "earlyAt p n info ls k =
     (0 < k \<and> k < length ls \<and> 20 < n + k \<and> decodes (ls ! (k - 1)) \<and>
      stopNow (fst (scanLines p n info (take k ls))))"

text \<open>
  The timestamp a line offers as start time: the line decodes, its type is \<^verbatim>\<open>user\<close>, its
  timestamp is not empty and parses. \<open>offeredTimes\<close> lists the timestamps offered by the
  lines after the first, in their order.
\<close>

definition userTimestamp :: "(gostring \<Rightarrow> Time option) \<Rightarrow> jsonText \<Rightarrow> Time option" where
  "userTimestamp parseTime line =
     (case Unmarshal userEntry line of
        (entry, None) \<Rightarrow>
          if getString entry (str ''type'') = str ''user'' \<and>
             getString entry (str ''timestamp'') \<noteq> []
          then parseTime (getString entry (str ''timestamp''))
          else None
      | (entry, Some err) \<Rightarrow> None)"

definition offeredTimes :: "(gostring \<Rightarrow> Time option) \<Rightarrow> jsonText list \<Rightarrow> Time list" where
  "offeredTimes parseTime lines = List.map_filter (userTimestamp parseTime) (tl lines)"

text \<open>
  What a later descriptor of the same scan keeps of an earlier one: a start time that is
  not zero, and the beacon mark with the role and the topic. \<open>firstNonZero\<close> is the first
  time of a list that is not the zero instant.
\<close>

definition settled :: "SessionInfo \<Rightarrow> SessionInfo \<Rightarrow> bool" where
  "settled info info' =
     ((\<not> IsZero (StartTime info) \<longrightarrow> StartTime info' = StartTime info) \<and>
      (IsGasTown info \<longrightarrow>
         IsGasTown info' \<and> Role info' = Role info \<and> Topic info' = Topic info))"

definition firstNonZero :: "Time list \<Rightarrow> Time option" where
  "firstNonZero ts = find (\<lambda>t. \<not> IsZero t) ts"

text \<open>
  The summary that line 1 contributes: the summary of a record of type \<^verbatim>\<open>summary\<close> that
  decodes without error, and nothing otherwise.
\<close>

definition firstSummary :: "jsonText \<Rightarrow> gostring" where
  "firstSummary line =
     (case Unmarshal summaryEntry line of
        (entry, err) \<Rightarrow>
          if err = None \<and> getString entry (str ''type'') = str ''summary''
          then getString entry (str ''summary'')
          else [])"

section \<open>Session discovery\<close>

text \<open>
  The storage that \<^verbatim>\<open>DiscoverSessions\<close> reads. A session file has a name and the outcome
  of opening it; an entry of the projects directory has a name, is a directory or not,
  and has the outcome of \<^verbatim>\<open>os.ReadDir\<close> on it; the projects directory has its path, the
  answer of \<^verbatim>\<open>os.IsNotExist\<close> to the error of \<^verbatim>\<open>os.Stat\<close>, and the outcome of
  \<^verbatim>\<open>os.ReadDir\<close>.
\<close>

datatype sessionFile = SessionFile (fileName: gostring) (opened: "error + jsonText list")

datatype dirEntry =
  DirEntry (entryName: gostring) (IsDir: bool) (listing: "error + sessionFile list")

record storage =
  projectsDir :: gostring
  statNotExist :: bool
  rootListing :: "error + dirEntry list"

text \<open>
  What the walk has done so far: the sessions appended, the project directories handed
  to \<^verbatim>\<open>os.ReadDir\<close> and the files handed to \<^verbatim>\<open>parseSession\<close>, which opens them.
\<close>

record walk =
  sessions :: "SessionInfo list"
  listed :: "gostring list"
  parsed :: "gostring list"

text \<open>\<^verbatim>\<open>strings.ToLower\<close> maps every rune by \<^verbatim>\<open>unicode.ToLower\<close>, here \<open>lower\<close>.\<close>

definition ToLower :: "(rune \<Rightarrow> rune) \<Rightarrow> gostring \<Rightarrow> gostring" where
  "ToLower lower s = map lower s"

text \<open>The role filter: the role or the path contains the filter's role, cases ignored.\<close>

definition roleKeeps :: "(rune \<Rightarrow> rune) \<Rightarrow> SessionFilter \<Rightarrow> SessionInfo \<Rightarrow> bool" where
  "roleKeeps lower flt info =
     (if FilterRole flt \<noteq> []
      then let roleMatch = Contains (ToLower lower (Role info)) (ToLower lower (FilterRole flt));
               pathMatch = Contains (ToLower lower (Path info)) (ToLower lower (FilterRole flt))
           in \<not> (\<not> roleMatch \<and> \<not> pathMatch)
      else True)"

text \<open>The loop over the files of one project directory.\<close>

fun scanFiles :: "(gostring \<Rightarrow> Time option) \<Rightarrow> (rune \<Rightarrow> rune) \<Rightarrow> SessionFilter \<Rightarrow> gostring \<Rightarrow>
    gostring \<Rightarrow> sessionFile list \<Rightarrow> walk \<Rightarrow> walk" where
  "scanFiles parseTime lower flt projectDir projectPath [] w = w"
| "scanFiles parseTime lower flt projectDir projectPath (sf # rest) w =
     (if \<not> HasSuffix (fileName sf) (str ''.jsonl'')
      then scanFiles parseTime lower flt projectDir projectPath rest w
      else if HasPrefix (fileName sf) (str ''agent-'')
      then scanFiles parseTime lower flt projectDir projectPath rest w
      else
        let sessionPath = Join projectDir (fileName sf);
            w' = w\<lparr>parsed := parsed w @ [sessionPath]\<rparr>
        in case parseSession parseTime (opened sf) sessionPath projectPath of
             Inl err \<Rightarrow> scanFiles parseTime lower flt projectDir projectPath rest w'
           | Inr info \<Rightarrow>
               if GasTownOnly flt \<and> \<not> IsGasTown info
               then scanFiles parseTime lower flt projectDir projectPath rest w'
               else if \<not> roleKeeps lower flt info
               then scanFiles parseTime lower flt projectDir projectPath rest w'
               else scanFiles parseTime lower flt projectDir projectPath rest
                      (w'\<lparr>sessions := sessions w' @ [info]\<rparr>))"

text \<open>The loop over the entries of the projects directory.\<close>

fun scanEntries :: "(gostring \<Rightarrow> Time option) \<Rightarrow> (rune \<Rightarrow> rune) \<Rightarrow> SessionFilter \<Rightarrow> gostring \<Rightarrow>
    dirEntry list \<Rightarrow> walk \<Rightarrow> walk" where
  "scanEntries parseTime lower flt root [] w = w"
| "scanEntries parseTime lower flt root (entry # rest) w =
     (if \<not> IsDir entry then scanEntries parseTime lower flt root rest w
      else
        let projectPath = decodePath (entryName entry)
        in if FilterRig flt \<noteq> [] \<and>
              \<not> Contains projectPath (str ''/'' @ FilterRig flt @ str ''/'')
           then scanEntries parseTime lower flt root rest w
           else if FilterPath flt \<noteq> [] \<and> \<not> Contains projectPath (FilterPath flt)
           then scanEntries parseTime lower flt root rest w
           else
             let projectDir = Join root (entryName entry);
                 w' = w\<lparr>listed := listed w @ [projectDir]\<rparr>
             in case listing entry of
                  Inl err \<Rightarrow> scanEntries parseTime lower flt root rest w'
                | Inr sessionFiles \<Rightarrow>
                    scanEntries parseTime lower flt root rest
                      (scanFiles parseTime lower flt projectDir projectPath sessionFiles w'))"

text \<open>
  The call of \<^verbatim>\<open>sort.Slice\<close>, with the comparison of the source. \<open>sortSlice\<close> stands for
  \<^verbatim>\<open>sort.Slice\<close>; the algorithm of the library is \<open>Slice\<close> in the next section.
\<close>

definition byStartTimeDesc :: "SessionInfo \<Rightarrow> SessionInfo \<Rightarrow> bool" where
  "byStartTimeDesc a b = After (StartTime a) (StartTime b)"

definition sortSessions ::
  "((SessionInfo \<Rightarrow> SessionInfo \<Rightarrow> bool) \<Rightarrow> SessionInfo list \<Rightarrow> SessionInfo list) \<Rightarrow>
   SessionInfo list \<Rightarrow> SessionInfo list" where
  "sortSessions sortSlice ss = sortSlice byStartTimeDesc ss"

definition applyLimit :: "SessionFilter \<Rightarrow> SessionInfo list \<Rightarrow> SessionInfo list" where
  "applyLimit flt ss =
     (if Limit flt > 0 \<and> int (length ss) > Limit flt then take (nat (Limit flt)) ss
      else ss)"

definition emptyWalk :: walk where
  "emptyWalk = \<lparr>sessions = [], listed = [], parsed = []\<rparr>"

text \<open>The walk of \<^verbatim>\<open>DiscoverSessions\<close> over the entries of the projects directory.\<close>

definition discoverWalk :: "(gostring \<Rightarrow> Time option) \<Rightarrow> (rune \<Rightarrow> rune) \<Rightarrow> SessionFilter \<Rightarrow>
    gostring \<Rightarrow> dirEntry list \<Rightarrow> walk" where
  "discoverWalk parseTime lower flt root entries =
     scanEntries parseTime lower flt root entries emptyWalk"

definition DiscoverSessions :: "(gostring \<Rightarrow> Time option) \<Rightarrow> (rune \<Rightarrow> rune) \<Rightarrow>
    ((SessionInfo \<Rightarrow> SessionInfo \<Rightarrow> bool) \<Rightarrow> SessionInfo list \<Rightarrow> SessionInfo list) \<Rightarrow>
    storage \<Rightarrow> SessionFilter \<Rightarrow> error + SessionInfo list" where
  "DiscoverSessions parseTime lower sortSlice fs flt =
     (if statNotExist fs then Inr []
      else case rootListing fs of
        Inl err \<Rightarrow> Inl err
      | Inr entries \<Rightarrow>
          Inr (applyLimit flt
                (sortSessions sortSlice
                  (sessions (discoverWalk parseTime lower flt (projectsDir fs) entries)))))"

section \<open>Sorting (package sort)\<close>

text \<open>
  The algorithm behind \<^verbatim>\<open>sort.Slice\<close> in Go's standard library since Go 1.19 (file
  \<^verbatim>\<open>sort/zsortfunc.go\<close>): a pattern-defeating quicksort, which sorts slices of at most 12
  elements by insertion and falls back to heap sort when the limit of bad pivots is used
  up. It is not stable. The functions keep the names of the library.
\<close>

text \<open>
  \<^verbatim>\<open>sort.Slice\<close> sees the slice through two operations on indices: \<^verbatim>\<open>Less\<close>, the function
  it is given, which \<^verbatim>\<open>DiscoverSessions\<close> makes compare the elements at the two indices of
  the slice being sorted, and \<^verbatim>\<open>Swap\<close>. The slice is a list, passed along and returned.
\<close>

definition Less :: "('a \<Rightarrow> 'a \<Rightarrow> bool) \<Rightarrow> 'a list \<Rightarrow> nat \<Rightarrow> nat \<Rightarrow> bool" where
  "Less lessFn data i j = lessFn (data ! i) (data ! j)"

definition Swap :: "'a list \<Rightarrow> nat \<Rightarrow> nat \<Rightarrow> 'a list" where
  "Swap data i j = data[i := data ! j, j := data ! i]"

text \<open>
  \<^verbatim>\<open>insertionSort_func\<close> sorts \<^verbatim>\<open>data[a:b]\<close>: the inner loop moves element \<open>j\<close> down while it
  is less than its predecessor, the outer loop runs \<open>i\<close> from \<open>a + 1\<close> to \<open>b\<close>.
\<close>

function insertionInner :: "('a \<Rightarrow> 'a \<Rightarrow> bool) \<Rightarrow> 'a list \<Rightarrow> nat \<Rightarrow> nat \<Rightarrow> 'a list" where
  "insertionInner lessFn data a j =
     (if j > a \<and> Less lessFn data j (j - 1)
      then insertionInner lessFn (Swap data j (j - 1)) a (j - 1)
      else data)"
  by pat_completeness auto
termination
  by (relation "measure (\<lambda>(lessFn, data, a, j). j)") auto

declare insertionInner.simps [simp del]

function insertionOuter :: "('a \<Rightarrow> 'a \<Rightarrow> bool) \<Rightarrow> 'a list \<Rightarrow> nat \<Rightarrow> nat \<Rightarrow> nat \<Rightarrow> 'a list" where
  "insertionOuter lessFn data a b i =
     (if i < b then insertionOuter lessFn (insertionInner lessFn data a i) a b (i + 1)
      else data)"
  by pat_completeness auto
termination
  by (relation "measure (\<lambda>(lessFn, data, a, b, i). b - i)") auto

declare insertionOuter.simps [simp del]

definition insertionSort_func :: "('a \<Rightarrow> 'a \<Rightarrow> bool) \<Rightarrow> 'a list \<Rightarrow> nat \<Rightarrow> nat \<Rightarrow> 'a list" where
  "insertionSort_func lessFn data a b = insertionOuter lessFn data a b (a + 1)"

text \<open>
  \<^verbatim>\<open>siftDown_func\<close> and \<^verbatim>\<open>heapSort_func\<close>: the heap is built with \<open>i\<close> running from
  \<open>(hi - 1) / 2\<close> down to 0, then the greatest element is popped \<open>hi\<close> times.
\<close>

function siftDown_func :: "('a \<Rightarrow> 'a \<Rightarrow> bool) \<Rightarrow> 'a list \<Rightarrow> nat \<Rightarrow> nat \<Rightarrow> nat \<Rightarrow> 'a list" where
  "siftDown_func lessFn data root hi first =
     (if 2 * root + 1 \<ge> hi then data
      else
        let child = (if 2 * root + 1 + 1 < hi \<and>
                        Less lessFn data (first + (2 * root + 1)) (first + (2 * root + 1) + 1)
                     then 2 * root + 1 + 1 else 2 * root + 1)
        in if \<not> Less lessFn data (first + root) (first + child) then data
           else siftDown_func lessFn (Swap data (first + root) (first + child)) child hi first)"
  by pat_completeness auto
termination
  by (relation "measure (\<lambda>(lessFn, data, root, hi, first). hi - root)") (auto simp: Let_def)

declare siftDown_func.simps [simp del]

fun heapBuild :: "('a \<Rightarrow> 'a \<Rightarrow> bool) \<Rightarrow> 'a list \<Rightarrow> nat \<Rightarrow> nat \<Rightarrow> nat \<Rightarrow> 'a list" where
  "heapBuild lessFn data hi first 0 = siftDown_func lessFn data 0 hi first"
| "heapBuild lessFn data hi first (Suc i) =
     heapBuild lessFn (siftDown_func lessFn data (Suc i) hi first) hi first i"

fun heapPop :: "('a \<Rightarrow> 'a \<Rightarrow> bool) \<Rightarrow> 'a list \<Rightarrow> nat \<Rightarrow> nat \<Rightarrow> 'a list" where
  "heapPop lessFn data first 0 = data"
| "heapPop lessFn data first (Suc i) =
     heapPop lessFn (siftDown_func lessFn (Swap data first (first + i)) 0 i first) first i"

definition heapSort_func :: "('a \<Rightarrow> 'a \<Rightarrow> bool) \<Rightarrow> 'a list \<Rightarrow> nat \<Rightarrow> nat \<Rightarrow> 'a list" where
  "heapSort_func lessFn data a b =
     (let first = a; hi = b - a
      in heapPop lessFn (heapBuild lessFn data hi first ((hi - 1) div 2)) first hi)"

text \<open>
  \<^verbatim>\<open>choosePivot_func\<close> with \<^verbatim>\<open>order2_func\<close>, \<^verbatim>\<open>median_func\<close> and \<^verbatim>\<open>medianAdjacent_func\<close>: the
  counter of swaps is passed along and returned. Slices of 8 elements or more take the
  median of three, slices of 50 or more the median of three medians.
\<close>

datatype sortedHint = unknownHint | increasingHint | decreasingHint

definition order2_func :: "('a \<Rightarrow> 'a \<Rightarrow> bool) \<Rightarrow> 'a list \<Rightarrow> nat \<Rightarrow> nat \<Rightarrow> nat \<Rightarrow> nat \<times> nat \<times> nat" where
  "order2_func lessFn data a b swaps =
     (if Less lessFn data b a then (b, a, swaps + 1) else (a, b, swaps))"

definition median_func :: "('a \<Rightarrow> 'a \<Rightarrow> bool) \<Rightarrow> 'a list \<Rightarrow> nat \<Rightarrow> nat \<Rightarrow> nat \<Rightarrow> nat \<Rightarrow> nat \<times> nat" where
  "median_func lessFn data a b c swaps =
     (case order2_func lessFn data a b swaps of (a1, b1, swaps1) \<Rightarrow>
      case order2_func lessFn data b1 c swaps1 of (b2, c2, swaps2) \<Rightarrow>
      case order2_func lessFn data a1 b2 swaps2 of (a3, b3, swaps3) \<Rightarrow>
        (b3, swaps3))"

definition medianAdjacent_func :: "('a \<Rightarrow> 'a \<Rightarrow> bool) \<Rightarrow> 'a list \<Rightarrow> nat \<Rightarrow> nat \<Rightarrow> nat \<times> nat" where
  "medianAdjacent_func lessFn data a swaps = median_func lessFn data (a - 1) a (a + 1) swaps"

definition choosePivot_func :: "('a \<Rightarrow> 'a \<Rightarrow> bool) \<Rightarrow> 'a list \<Rightarrow> nat \<Rightarrow> nat \<Rightarrow> nat \<times> sortedHint" where
  "choosePivot_func lessFn data a b =
     (let l = b - a;
          i = a + l div 4 * 1;
          j = a + l div 4 * 2;
          k = a + l div 4 * 3;
          (j', swaps) =
            (if l \<ge> 8 then
               (if l \<ge> 50 then
                  case medianAdjacent_func lessFn data i 0 of (i1, s1) \<Rightarrow>
                  case medianAdjacent_func lessFn data j s1 of (j1, s2) \<Rightarrow>
                  case medianAdjacent_func lessFn data k s2 of (k1, s3) \<Rightarrow>
                    median_func lessFn data i1 j1 k1 s3
                else median_func lessFn data i j k 0)
             else (j, 0))
      in if swaps = 0 then (j', increasingHint)
         else if swaps = 4 * 3 then (j', decreasingHint)
         else (j', unknownHint))"

text \<open>
  \<^verbatim>\<open>reverseRange_func\<close> reverses \<^verbatim>\<open>data[a:b]\<close>.
\<close>

function reverseLoop :: "'a list \<Rightarrow> nat \<Rightarrow> nat \<Rightarrow> 'a list" where
  "reverseLoop data i j = (if i < j then reverseLoop (Swap data i j) (i + 1) (j - 1) else data)"
  by pat_completeness auto
termination
  by (relation "measure (\<lambda>(data, i, j). j - i)") auto

declare reverseLoop.simps [simp del]

definition reverseRange_func :: "'a list \<Rightarrow> nat \<Rightarrow> nat \<Rightarrow> 'a list" where
  "reverseRange_func data a b = reverseLoop data a (b - 1)"

text \<open>
  \<^verbatim>\<open>partialInsertionSort_func\<close>: at most five times (\<open>j\<close> counts them), skip the elements
  that are in order (\<open>skipSorted\<close>); at the end of the slice return true; on a slice of
  less than 50 elements return false; else swap the pair found and shift the smaller one
  to the left and the greater one to the right (\<open>shiftNeighbours\<close>).
\<close>

function skipSorted :: "('a \<Rightarrow> 'a \<Rightarrow> bool) \<Rightarrow> 'a list \<Rightarrow> nat \<Rightarrow> nat \<Rightarrow> nat" where
  "skipSorted lessFn data i b =
     (if i < b \<and> \<not> Less lessFn data i (i - 1) then skipSorted lessFn data (i + 1) b else i)"
  by pat_completeness auto
termination
  by (relation "measure (\<lambda>(lessFn, data, i, b). b - i)") auto

declare skipSorted.simps [simp del]

function shiftLeft :: "('a \<Rightarrow> 'a \<Rightarrow> bool) \<Rightarrow> 'a list \<Rightarrow> nat \<Rightarrow> 'a list" where
  "shiftLeft lessFn data j =
     (if j \<ge> 1 then
        (if \<not> Less lessFn data j (j - 1) then data
         else shiftLeft lessFn (Swap data j (j - 1)) (j - 1))
      else data)"
  by pat_completeness auto
termination
  by (relation "measure (\<lambda>(lessFn, data, j). j)") auto

declare shiftLeft.simps [simp del]

function shiftRight :: "('a \<Rightarrow> 'a \<Rightarrow> bool) \<Rightarrow> 'a list \<Rightarrow> nat \<Rightarrow> nat \<Rightarrow> 'a list" where
  "shiftRight lessFn data j b =
     (if j < b then
        (if \<not> Less lessFn data j (j - 1) then data
         else shiftRight lessFn (Swap data j (j - 1)) (j + 1) b)
      else data)"
  by pat_completeness auto
termination
  by (relation "measure (\<lambda>(lessFn, data, j, b). b - j)") auto

declare shiftRight.simps [simp del]

definition shiftNeighbours :: "('a \<Rightarrow> 'a \<Rightarrow> bool) \<Rightarrow> 'a list \<Rightarrow> nat \<Rightarrow> nat \<Rightarrow> nat \<Rightarrow> 'a list" where
  "shiftNeighbours lessFn data a b i =
     (let data1 = Swap data i (i - 1);
          data2 = (if i - a \<ge> 2 then shiftLeft lessFn data1 (i - 1) else data1);
          data3 = (if b - i \<ge> 2 then shiftRight lessFn data2 (i + 1) b else data2)
      in data3)"

function partialSteps :: "('a \<Rightarrow> 'a \<Rightarrow> bool) \<Rightarrow> 'a list \<Rightarrow> nat \<Rightarrow> nat \<Rightarrow> nat \<Rightarrow> nat \<Rightarrow> 'a list \<times> bool" where
  "partialSteps lessFn data a b i j =
     (if j < 5
      then if skipSorted lessFn data i b = b then (data, True)
           else if b - a < 50 then (data, False)
           else partialSteps lessFn
                  (shiftNeighbours lessFn data a b (skipSorted lessFn data i b)) a b
                  (skipSorted lessFn data i b) (j + 1)
      else (data, False))"
  by pat_completeness auto
termination
  by (relation "measure (\<lambda>(lessFn, data, a, b, i, j). 5 - j)") auto

declare partialSteps.simps [simp del]

definition partialInsertionSort_func :: "('a \<Rightarrow> 'a \<Rightarrow> bool) \<Rightarrow> 'a list \<Rightarrow> nat \<Rightarrow> nat \<Rightarrow> 'a list \<times> bool" where
  "partialInsertionSort_func lessFn data a b = partialSteps lessFn data a b (a + 1) 0"

text \<open>
  \<^verbatim>\<open>bits.Len\<close>, the generator \<^verbatim>\<open>xorshift\<close> on 64-bit words, \<^verbatim>\<open>nextPowerOfTwo\<close> and
  \<^verbatim>\<open>breakPatterns_func\<close>, which swaps three elements around the middle of the slice with
  three others chosen by the generator, seeded with the length of the slice.
\<close>

fun bitsLen :: "nat \<Rightarrow> nat" where
  "bitsLen n = (if n = 0 then 0 else Suc (bitsLen (n div 2)))"

declare bitsLen.simps [simp del]

definition xorshiftNext :: "64 word \<Rightarrow> 64 word" where
  "xorshiftNext r =
     (let r1 = r XOR push_bit 13 r;
          r2 = r1 XOR drop_bit 7 r1;
          r3 = r2 XOR push_bit 17 r2
      in r3)"

definition nextPowerOfTwo :: "nat \<Rightarrow> 64 word" where
  "nextPowerOfTwo len = push_bit (bitsLen len) 1"

fun breakSwaps :: "'a list \<Rightarrow> nat \<Rightarrow> nat \<Rightarrow> 64 word \<Rightarrow> nat \<Rightarrow> 64 word \<Rightarrow> nat list \<Rightarrow> 'a list" where
  "breakSwaps data a len modulus idx random [] = data"
| "breakSwaps data a len modulus idx random (i # rest) =
     (let random' = xorshiftNext random;
          other = unat (random' AND (modulus - 1));
          other' = (if other \<ge> len then other - len else other)
      in breakSwaps (Swap data (idx - 1 + i) (a + other')) a len modulus idx random' rest)"

definition breakPatterns_func :: "'a list \<Rightarrow> nat \<Rightarrow> nat \<Rightarrow> 'a list" where
  "breakPatterns_func data a b =
     (let len = b - a
      in if len \<ge> 8
         then breakSwaps data a len (nextPowerOfTwo len) (a + (len div 4) * 2 - 1)
                (word_of_nat len) [0, 1, 2]
         else data)"

text \<open>
  The two inner loops of \<^verbatim>\<open>partition_func\<close> and \<^verbatim>\<open>partitionEqual_func\<close>: \<open>i\<close> goes up and
  \<open>j\<close> goes down while \<open>i \<le> j\<close> and the test holds of the element. Both are integers, as
  \<open>j\<close> may fall below 0.
\<close>

function scanUp :: "(nat \<Rightarrow> bool) \<Rightarrow> int \<Rightarrow> int \<Rightarrow> int" where
  "scanUp test i j = (if i \<le> j \<and> test (nat i) then scanUp test (i + 1) j else i)"
  by pat_completeness auto
termination
  by (relation "measure (\<lambda>(test, i, j). nat (j + 1 - i))") auto

declare scanUp.simps [simp del]

function scanDown :: "(nat \<Rightarrow> bool) \<Rightarrow> int \<Rightarrow> int \<Rightarrow> int" where
  "scanDown test i j = (if i \<le> j \<and> test (nat j) then scanDown test i (j - 1) else j)"
  by pat_completeness auto
termination
  by (relation "measure (\<lambda>(test, i, j). nat (j + 1 - i))") auto

declare scanDown.simps [simp del]

text \<open>
  \<^verbatim>\<open>partition_func\<close>: the pivot is swapped to \<open>a\<close>; after the first pass of the two loops
  the slice was already partitioned if \<open>i > j\<close>; otherwise the pair is swapped and the
  loop \<open>partitionLoop\<close> goes on until \<open>i > j\<close>. At the end the pivot is swapped to \<open>j\<close>,
  which is returned.
\<close>

function partitionLoop :: "('a \<Rightarrow> 'a \<Rightarrow> bool) \<Rightarrow> 'a list \<Rightarrow> nat \<Rightarrow> int \<Rightarrow> int \<Rightarrow> 'a list \<times> nat" where
  "partitionLoop lessFn data a i j =
     (if scanUp (\<lambda>k. Less lessFn data k a) i j >
         scanDown (\<lambda>k. \<not> Less lessFn data k a) (scanUp (\<lambda>k. Less lessFn data k a) i j) j
      then (Swap data
              (nat (scanDown (\<lambda>k. \<not> Less lessFn data k a)
                      (scanUp (\<lambda>k. Less lessFn data k a) i j) j)) a,
            nat (scanDown (\<lambda>k. \<not> Less lessFn data k a)
                   (scanUp (\<lambda>k. Less lessFn data k a) i j) j))
      else partitionLoop lessFn
             (Swap data (nat (scanUp (\<lambda>k. Less lessFn data k a) i j))
                (nat (scanDown (\<lambda>k. \<not> Less lessFn data k a)
                        (scanUp (\<lambda>k. Less lessFn data k a) i j) j)))
             a
             (scanUp (\<lambda>k. Less lessFn data k a) i j + 1)
             (scanDown (\<lambda>k. \<not> Less lessFn data k a)
                (scanUp (\<lambda>k. Less lessFn data k a) i j) j - 1))"
  by pat_completeness auto
termination
proof (relation "measure (\<lambda>(lessFn, data, a, i, j). nat (j + 1 - i))")
  show "wf (measure (\<lambda>(lessFn, data, a, i, j). nat (j + 1 - i)))"
    by simp
next
  fix lessFn :: "'a \<Rightarrow> 'a \<Rightarrow> bool" and data :: "'a list" and a :: nat and i j :: int
  have up: "i \<le> scanUp t i j" for t i j
    by (induction t i j rule: scanUp.induct) (subst scanUp.simps, auto)
  have down: "scanDown t i j \<le> j" for t i j
    by (induction t i j rule: scanDown.induct) (subst scanDown.simps, auto)
  let ?i = "scanUp (\<lambda>k. Less lessFn data k a) i j"
  let ?j = "scanDown (\<lambda>k. \<not> Less lessFn data k a) ?i j"
  assume "\<not> ?j < ?i"
  with up [of i "\<lambda>k. Less lessFn data k a" j] down [of "\<lambda>k. \<not> Less lessFn data k a" ?i j]
  show "((lessFn, Swap data (nat ?i) (nat ?j), a, ?i + 1, ?j - 1), lessFn, data, a, i, j)
        \<in> measure (\<lambda>(lessFn, data, a, i, j). nat (j + 1 - i))"
    by simp
qed

declare partitionLoop.simps [simp del]

definition partition_func :: "('a \<Rightarrow> 'a \<Rightarrow> bool) \<Rightarrow> 'a list \<Rightarrow> nat \<Rightarrow> nat \<Rightarrow> nat \<Rightarrow>
    'a list \<times> nat \<times> bool" where
  "partition_func lessFn data a b pivot =
     (let data1 = Swap data a pivot;
          i = scanUp (\<lambda>k. Less lessFn data1 k a) (int a + 1) (int b - 1);
          j = scanDown (\<lambda>k. \<not> Less lessFn data1 k a) i (int b - 1)
      in if i > j then (Swap data1 (nat j) a, nat j, True)
         else case partitionLoop lessFn (Swap data1 (nat i) (nat j)) a (i + 1) (j - 1) of
                (data2, newpivot) \<Rightarrow> (data2, newpivot, False))"

text \<open>
  \<^verbatim>\<open>partitionEqual_func\<close> partitions into the elements equal to the pivot and the elements
  greater than it, and returns \<open>i\<close>.
\<close>

function partitionEqualLoop :: "('a \<Rightarrow> 'a \<Rightarrow> bool) \<Rightarrow> 'a list \<Rightarrow> nat \<Rightarrow> int \<Rightarrow> int \<Rightarrow>
    'a list \<times> nat" where
  "partitionEqualLoop lessFn data a i j =
     (if scanUp (\<lambda>k. \<not> Less lessFn data a k) i j >
         scanDown (\<lambda>k. Less lessFn data a k) (scanUp (\<lambda>k. \<not> Less lessFn data a k) i j) j
      then (data, nat (scanUp (\<lambda>k. \<not> Less lessFn data a k) i j))
      else partitionEqualLoop lessFn
             (Swap data (nat (scanUp (\<lambda>k. \<not> Less lessFn data a k) i j))
                (nat (scanDown (\<lambda>k. Less lessFn data a k)
                        (scanUp (\<lambda>k. \<not> Less lessFn data a k) i j) j)))
             a
             (scanUp (\<lambda>k. \<not> Less lessFn data a k) i j + 1)
             (scanDown (\<lambda>k. Less lessFn data a k)
                (scanUp (\<lambda>k. \<not> Less lessFn data a k) i j) j - 1))"
  by pat_completeness auto
termination
proof (relation "measure (\<lambda>(lessFn, data, a, i, j). nat (j + 1 - i))")
  show "wf (measure (\<lambda>(lessFn, data, a, i, j). nat (j + 1 - i)))"
    by simp
next
  fix lessFn :: "'a \<Rightarrow> 'a \<Rightarrow> bool" and data :: "'a list" and a :: nat and i j :: int
  have up: "i \<le> scanUp t i j" for t i j
    by (induction t i j rule: scanUp.induct) (subst scanUp.simps, auto)
  have down: "scanDown t i j \<le> j" for t i j
    by (induction t i j rule: scanDown.induct) (subst scanDown.simps, auto)
  let ?i = "scanUp (\<lambda>k. \<not> Less lessFn data a k) i j"
  let ?j = "scanDown (\<lambda>k. Less lessFn data a k) ?i j"
  assume "\<not> ?j < ?i"
  with up [of i "\<lambda>k. \<not> Less lessFn data a k" j] down [of "\<lambda>k. Less lessFn data a k" ?i j]
  show "((lessFn, Swap data (nat ?i) (nat ?j), a, ?i + 1, ?j - 1), lessFn, data, a, i, j)
        \<in> measure (\<lambda>(lessFn, data, a, i, j). nat (j + 1 - i))"
    by simp
qed

declare partitionEqualLoop.simps [simp del]

definition partitionEqual_func :: "('a \<Rightarrow> 'a \<Rightarrow> bool) \<Rightarrow> 'a list \<Rightarrow> nat \<Rightarrow> nat \<Rightarrow> nat \<Rightarrow>
    'a list \<times> nat" where
  "partitionEqual_func lessFn data a b pivot =
     partitionEqualLoop lessFn (Swap data a pivot) a (int a + 1) (int b - 1)"

text \<open>
  \<^verbatim>\<open>pdqsort_func\<close>. One round of its loop up to the partition is \<open>beforePartition\<close>: break
  the patterns after an unbalanced partition, choose the pivot, reverse a slice that
  looks decreasing, and try the partial insertion sort on a slice that looks increasing;
  the result is the slice, the limit, the pivot and whether the slice is now sorted. The
  loop variables \<^verbatim>\<open>wasBalanced\<close> and \<^verbatim>\<open>wasPartitioned\<close> are arguments: a recursive call of
  the source starts with both true, the next round of the loop with their new values.
\<close>

definition beforePartition :: "('a \<Rightarrow> 'a \<Rightarrow> bool) \<Rightarrow> 'a list \<Rightarrow> nat \<Rightarrow> nat \<Rightarrow> nat \<Rightarrow> bool \<Rightarrow> bool \<Rightarrow>
    'a list \<times> nat \<times> nat \<times> bool" where
  "beforePartition lessFn data a b limit wasBalanced wasPartitioned =
     (let data1 = (if \<not> wasBalanced then breakPatterns_func data a b else data);
          limit1 = (if \<not> wasBalanced then limit - 1 else limit);
          pivot = fst (choosePivot_func lessFn data1 a b);
          hint = snd (choosePivot_func lessFn data1 a b);
          data2 = (if hint = decreasingHint then reverseRange_func data1 a b else data1);
          pivot2 = (if hint = decreasingHint then (b - 1) - (pivot - a) else pivot);
          hint2 = (if hint = decreasingHint then increasingHint else hint)
      in if wasBalanced \<and> wasPartitioned \<and> hint2 = increasingHint
         then (case partialInsertionSort_func lessFn data2 a b of
                 (data3, finished) \<Rightarrow> (data3, limit1, pivot2, finished))
         else (data2, limit1, pivot2, False))"

function pdqsort_func :: "('a \<Rightarrow> 'a \<Rightarrow> bool) \<Rightarrow> 'a list \<Rightarrow> nat \<Rightarrow> nat \<Rightarrow> nat \<Rightarrow> bool \<Rightarrow> bool \<Rightarrow>
    'a list" where
  "pdqsort_func lessFn data a b limit wasBalanced wasPartitioned =
     (if b - a \<le> 12 then insertionSort_func lessFn data a b
      else if limit = 0 then heapSort_func lessFn data a b
      else
        case beforePartition lessFn data a b limit wasBalanced wasPartitioned of
          (data1, limit1, pivot, finished) \<Rightarrow>
            if finished then data1
            else if a > 0 \<and> \<not> Less lessFn data1 (a - 1) pivot
            then (case partitionEqual_func lessFn data1 a b pivot of
                    (data2, mid) \<Rightarrow>
                      pdqsort_func lessFn data2 mid b limit1 wasBalanced wasPartitioned)
            else (case partition_func lessFn data1 a b pivot of
                    (data2, mid, alreadyPartitioned) \<Rightarrow>
                      if mid - a < b - mid
                      then pdqsort_func lessFn
                             (pdqsort_func lessFn data2 a mid limit1 True True)
                             (mid + 1) b limit1 (mid - a \<ge> (b - a) div 8) alreadyPartitioned
                      else pdqsort_func lessFn
                             (pdqsort_func lessFn data2 (mid + 1) b limit1 True True)
                             a mid limit1 (b - mid \<ge> (b - a) div 8) alreadyPartitioned))"
  by pat_completeness auto
termination
proof -
  have up: "i \<le> scanUp t i j" for t i j
    by (induction t i j rule: scanUp.induct) (subst scanUp.simps, auto)
  have up_le: "scanUp t i j \<le> max i (j + 1)" for t i j
    by (induction t i j rule: scanUp.induct) (subst scanUp.simps, auto)
  have down: "scanDown t i j \<le> j" for t i j
    by (induction t i j rule: scanDown.induct) (subst scanDown.simps, auto)
  have down_ge: "i \<le> j + 1 \<Longrightarrow> i - 1 \<le> scanDown t i j" for t i j
    by (induction t i j rule: scanDown.induct) (subst scanDown.simps, auto)
  have down_id: "j < i \<Longrightarrow> scanDown t i j = j" for t i j
    by (subst scanDown.simps) simp
  have loop: "int a + 2 \<le> i \<Longrightarrow> i \<le> j + 2 \<Longrightarrow>
              a \<le> snd (partitionLoop lessFn data a i j) \<and>
              int (snd (partitionLoop lessFn data a i j)) \<le> max (int a) j"
    for lessFn :: "'a \<Rightarrow> 'a \<Rightarrow> bool" and data a i j
  proof (induction lessFn data a i j rule: partitionLoop.induct)
    case (1 lessFn data a i j)
    let ?i = "scanUp (\<lambda>k. Less lessFn data k a) i j"
    let ?j = "scanDown (\<lambda>k. \<not> Less lessFn data k a) ?i j"
    have i1: "i \<le> ?i" by (rule up)
    have i2: "?i \<le> max i (j + 1)" by (rule up_le)
    have j1: "?j \<le> j" by (rule down)
    have j2: "i - 2 \<le> ?j"
    proof (cases "?i \<le> j + 1")
      case True
      from True have "?i - 1 \<le> ?j" by (rule down_ge)
      with i1 show ?thesis by simp
    next
      case False
      then have "j < ?i" by simp
      then have "?j = j" by (rule down_id)
      with "1.prems" show ?thesis by simp
    qed
    show ?case
    proof (cases "?j < ?i")
      case True
      with j1 j2 "1.prems" show ?thesis
        by (subst (1 2) partitionLoop.simps) auto
    next
      case False
      with i1 "1.prems" have p: "int a + 2 \<le> ?i + 1" "?i + 1 \<le> ?j - 1 + 2"
        by simp_all
      from "1.IH" [OF False p] j1 False show ?thesis
        by (subst (1 2) partitionLoop.simps) auto
    qed
  qed
  have part: "a < b \<Longrightarrow> a \<le> fst (snd (partition_func lessFn data a b pivot)) \<and>
              fst (snd (partition_func lessFn data a b pivot)) < b"
    for lessFn :: "'a \<Rightarrow> 'a \<Rightarrow> bool" and data a b pivot
  proof -
    assume ab: "a < b"
    let ?d = "Swap data a pivot"
    let ?i = "scanUp (\<lambda>k. Less lessFn ?d k a) (int a + 1) (int b - 1)"
    let ?j = "scanDown (\<lambda>k. \<not> Less lessFn ?d k a) ?i (int b - 1)"
    have i1: "int a + 1 \<le> ?i" by (rule up)
    have i2: "?i \<le> int b"
      using up_le [of "\<lambda>k. Less lessFn ?d k a" "int a + 1" "int b - 1"] ab by simp
    have j1: "?j \<le> int b - 1" by (rule down)
    from i2 have "?i \<le> int b - 1 + 1" by simp
    then have "?i - 1 \<le> ?j" by (rule down_ge)
    with i1 have j2: "int a \<le> ?j" by simp
    from j1 j2 have nj: "a \<le> nat ?j" "nat ?j < b"
      by linarith+
    show ?thesis
    proof (cases "?j < ?i")
      case True
      with nj show ?thesis
        by (simp add: partition_func_def Let_def)
    next
      case False
      with i1 have p: "int a + 2 \<le> ?i + 1" "?i + 1 \<le> ?j - 1 + 2"
        by simp_all
      from loop [OF p, of lessFn "Swap ?d (nat ?i) (nat ?j)"] j1 j2 False ab show ?thesis
        by (auto simp: partition_func_def Let_def split: prod.splits)
    qed
  qed
  have eqloop: "int a < i \<Longrightarrow> a < snd (partitionEqualLoop lessFn data a i j)"
    for lessFn :: "'a \<Rightarrow> 'a \<Rightarrow> bool" and data a i j
  proof (induction lessFn data a i j rule: partitionEqualLoop.induct)
    case (1 lessFn data a i j)
    let ?i = "scanUp (\<lambda>k. \<not> Less lessFn data a k) i j"
    let ?j = "scanDown (\<lambda>k. Less lessFn data a k) ?i j"
    have i1: "i \<le> ?i" by (rule up)
    show ?case
    proof (cases "?j < ?i")
      case True
      with i1 "1.prems" show ?thesis
        by (subst partitionEqualLoop.simps) auto
    next
      case False
      from i1 "1.prems" have "int a < ?i + 1" by simp
      from "1.IH" [OF False this] False show ?thesis
        by (subst partitionEqualLoop.simps) auto
    qed
  qed
  have eq: "a < snd (partitionEqual_func lessFn data a b pivot)"
    for lessFn :: "'a \<Rightarrow> 'a \<Rightarrow> bool" and data a b pivot
    unfolding partitionEqual_func_def by (rule eqloop) simp
  show ?thesis
    apply (relation "measure (\<lambda>(lessFn, data, a, b, limit, wb, wp). b - a)")
    subgoal by simp
    subgoal premises p for lessFn data a b limit wasBalanced wasPartitioned x y xa ya xb yb xc yc
      using eq [of a lessFn x b xb] p(1) p(8) [symmetric] by simp
    subgoal premises p for lessFn data a b limit wasBalanced wasPartitioned x y xa ya xb yb xc yc xd yd
      using part [of a b lessFn x xb] p(1) p(8) [symmetric] p(9) [symmetric] by simp arith
    subgoal premises p for lessFn data a b limit wasBalanced wasPartitioned x y xa ya xb yb xc yc xd yd
      using part [of a b lessFn x xb] p(1) p(8) [symmetric] p(9) [symmetric] by simp arith
    subgoal premises p for lessFn data a b limit wasBalanced wasPartitioned x y xa ya xb yb xc yc xd yd
      using part [of a b lessFn x xb] p(1) p(8) [symmetric] p(9) [symmetric] by simp arith
    subgoal premises p for lessFn data a b limit wasBalanced wasPartitioned x y xa ya xb yb xc yc xd yd
      using part [of a b lessFn x xb] p(1) p(8) [symmetric] p(9) [symmetric] by simp arith
    done
qed

declare pdqsort_func.simps [simp del]

text \<open>
  \<^verbatim>\<open>sort.Slice\<close> sorts the whole slice, with the number of bits of its length as the limit.
\<close>

definition Slice :: "('a \<Rightarrow> 'a \<Rightarrow> bool) \<Rightarrow> 'a list \<Rightarrow> 'a list" where
  "Slice lessFn x = pdqsort_func lessFn x 0 (length x) (bitsLen (length x)) True True"

section \<open>Example data\<close>

text \<open>
  \<^verbatim>\<open>time.Parse(time.RFC3339, _)\<close> on the timestamps of the examples below: the instants of
  three RFC 3339 texts, and an error for a text that is no timestamp. The first text
  denotes the zero instant.
\<close>

definition exampleParse :: "gostring \<Rightarrow> Time option" where
  "exampleParse s =
     (if s = str ''0001-01-01T00:00:00Z'' then Some \<lparr>instant = 0, offset = 0\<rparr>
      else if s = str ''2025-12-30T15:42:00Z''
      then Some \<lparr>instant = 63902706120000000000, offset = 0\<rparr>
      else if s = str ''2025-12-31T09:00:00Z''
      then Some \<lparr>instant = 63902768400000000000, offset = 0\<rparr>
      else None)"

text \<open>
  Lines of a log file: a summary record, a user record with a timestamp and a beacon in
  the content of its message, user records with a timestamp only, an assistant record and
  a line that is not valid JSON.
\<close>

definition summaryLine :: jsonText where
  "summaryLine =
     Valid (JObject [(str ''type'', JString (str ''summary'')),
                     (str ''summary'', JString (str ''Fix the build''))])"

definition beaconLine :: jsonText where
  "beaconLine =
     Valid (JObject
       [(str ''type'', JString (str ''user'')),
        (str ''sessionId'', JString (str ''d6d8475f'')),
        (str ''timestamp'', JString (str ''2025-12-30T15:42:00Z'')),
        (str ''message'', JObject
           [(str ''role'', JString (str ''user'')),
            (str ''content'', JString (str ''[GAS TOWN] deacon '' @ [bullet] @
                                        str '' patrol''))])])"

definition userLine :: "string \<Rightarrow> jsonText" where
  "userLine timestamp =
     Valid (JObject
       [(str ''type'', JString (str ''user'')),
        (str ''timestamp'', JString (str timestamp)),
        (str ''message'', JString (str ''hello''))])"

definition assistantLine :: jsonText where
  "assistantLine = Valid (JObject [(str ''type'', JString (str ''assistant''))])"

text \<open>
  Log files: a summary, a beacon and then \<open>n\<close> assistant records; the same with \<open>n\<close> lines
  that are not valid JSON instead; a file without a beacon.
\<close>

definition beaconFile :: "nat \<Rightarrow> jsonText list" where
  "beaconFile n = summaryLine # beaconLine # replicate n assistantLine"

definition brokenFile :: "nat \<Rightarrow> jsonText list" where
  "brokenFile n = summaryLine # beaconLine # replicate n Invalid"

definition plainFile :: "nat \<Rightarrow> jsonText list" where
  "plainFile n = summaryLine # userLine ''2025-12-30T15:42:00Z'' # replicate n assistantLine"

text \<open>
  The descriptor of the file \<^verbatim>\<open>/p/abc.jsonl\<close> of project \<^verbatim>\<open>/p\<close> after the summary line, the
  decoded beacon line, and the descriptor after the beacon line.
\<close>

definition summaryInfo :: SessionInfo where
  "summaryInfo = \<lparr>ID = str ''abc'', Path = str ''/p'', Role = [], Topic = [],
    StartTime = zeroTime, Summary = str ''Fix the build'',
    IsGasTown = False, FilePath = str ''/p/abc.jsonl''\<rparr>"

definition beaconEntry :: structValue where
  "beaconEntry =
     [(str ''message'', VRaw (JObject
           [(str ''role'', JString (str ''user'')),
            (str ''content'', JString (str ''[GAS TOWN] deacon '' @ [bullet] @
                                        str '' patrol''))])),
      (str ''timestamp'', VString (str ''2025-12-30T15:42:00Z'')),
      (str ''sessionId'', VString (str ''d6d8475f'')),
      (str ''type'', VString (str ''user''))]"

definition exampleInfo :: SessionInfo where
  "exampleInfo = \<lparr>ID = str ''abc'', Path = str ''/p'', Role = str ''deacon'',
    Topic = str ''patrol'',
    StartTime = \<lparr>instant = 63902706120000000000, offset = 0\<rparr>,
    Summary = str ''Fix the build'', IsGasTown = True, FilePath = str ''/p/abc.jsonl''\<rparr>"

text \<open>
  Files on disk: lines of 200 bytes each, and a file without a beacon whose third line
  has two MiB.
\<close>

definition onDisk :: "jsonText list \<Rightarrow> fileLine list" where
  "onDisk lines = map (FileLine 200) lines"

definition longLineFile :: "fileLine list" where
  "longLineFile =
     [FileLine 200 summaryLine, FileLine 200 (userLine ''2025-12-30T15:42:00Z''),
      FileLine (2 * 1024 * 1024) assistantLine, FileLine 200 assistantLine]"

text \<open>
  A file whose first user record carries the timestamp of the zero instant, and the
  descriptor of \<open>plainFile\<close>, which has a start time and no beacon.
\<close>

definition zeroFirstFile :: "jsonText list" where
  "zeroFirstFile =
     [summaryLine, userLine ''0001-01-01T00:00:00Z'', userLine ''2025-12-30T15:42:00Z'']"

definition plainInfo :: SessionInfo where
  "plainInfo = summaryInfo\<lparr>StartTime := \<lparr>instant = 63902706120000000000, offset = 0\<rparr>\<rparr>"

subsection \<open>Notions used in the statements about discovery\<close>

text \<open>
  An entry of the projects directory passes the early filters when it is a directory
  and its decoded path contains the rig of the filter between two slashes, if the filter
  has a rig, and the path of the filter, if it has one.
\<close>

definition passes :: "SessionFilter \<Rightarrow> dirEntry \<Rightarrow> bool" where
  "passes flt e =
     (IsDir e \<and>
      (FilterRig flt = [] \<or>
        Contains (decodePath (entryName e)) (str ''/'' @ FilterRig flt @ str ''/'')) \<and>
      (FilterPath flt = [] \<or> Contains (decodePath (entryName e)) (FilterPath flt)))"

text \<open>
  The sessions that one file, and one entry of the projects directory, add to the walk.
\<close>

definition fileSessions :: "(gostring \<Rightarrow> Time option) \<Rightarrow> (rune \<Rightarrow> rune) \<Rightarrow> SessionFilter \<Rightarrow>
    gostring \<Rightarrow> gostring \<Rightarrow> sessionFile \<Rightarrow> SessionInfo list" where
  "fileSessions parseTime lower flt projectDir projectPath sf =
     sessions (scanFiles parseTime lower flt projectDir projectPath [sf] emptyWalk)"

definition entrySessions :: "(gostring \<Rightarrow> Time option) \<Rightarrow> (rune \<Rightarrow> rune) \<Rightarrow> SessionFilter \<Rightarrow>
    gostring \<Rightarrow> dirEntry \<Rightarrow> SessionInfo list" where
  "entrySessions parseTime lower flt root e =
     sessions (scanEntries parseTime lower flt root [e] emptyWalk)"

text \<open>
  What the scan returns according to the taxonomy of errors, unit by unit. A descriptor is
  kept when it passes the beacon filter and the role filter. A session file contributes
  its descriptor if it is a candidate, can be opened and is kept, and nothing otherwise. An
  entry of the projects directory contributes the descriptors of its files, in their
  order, if it passes the early filters and can be read, and nothing otherwise. What a
  unit contributes does not depend on the units before it.
\<close>

definition keeps :: "(rune \<Rightarrow> rune) \<Rightarrow> SessionFilter \<Rightarrow> SessionInfo \<Rightarrow> bool" where
  "keeps lower flt info =
     (\<not> (GasTownOnly flt \<and> \<not> IsGasTown info) \<and> roleKeeps lower flt info)"

definition sessionsOfFile :: "(gostring \<Rightarrow> Time option) \<Rightarrow> (rune \<Rightarrow> rune) \<Rightarrow> SessionFilter \<Rightarrow>
    gostring \<Rightarrow> gostring \<Rightarrow> sessionFile \<Rightarrow> SessionInfo list" where
  "sessionsOfFile parseTime lower flt projectDir projectPath sf =
     (if HasSuffix (fileName sf) (str ''.jsonl'') \<and> \<not> HasPrefix (fileName sf) (str ''agent-'')
      then case parseSession parseTime (opened sf) (Join projectDir (fileName sf)) projectPath of
             Inl err \<Rightarrow> []
           | Inr info \<Rightarrow> if keeps lower flt info then [info] else []
      else [])"

definition sessionsOfEntry :: "(gostring \<Rightarrow> Time option) \<Rightarrow> (rune \<Rightarrow> rune) \<Rightarrow> SessionFilter \<Rightarrow>
    gostring \<Rightarrow> dirEntry \<Rightarrow> SessionInfo list" where
  "sessionsOfEntry parseTime lower flt root e =
     (if passes flt e
      then case listing e of
             Inl err \<Rightarrow> []
           | Inr files \<Rightarrow>
               concat (map (sessionsOfFile parseTime lower flt (Join root (entryName e))
                              (decodePath (entryName e))) files)
      else [])"



text \<open>
  The files of a project directory that \<^verbatim>\<open>DiscoverSessions\<close> hands to \<^verbatim>\<open>parseSession\<close>: the
  name ends in \<^verbatim>\<open>.jsonl\<close> and does not begin with \<^verbatim>\<open>agent-\<close>.
\<close>

definition candidates :: "sessionFile list \<Rightarrow> sessionFile list" where
  "candidates files =
     filter (\<lambda>sf. HasSuffix (fileName sf) (str ''.jsonl'') \<and>
                  \<not> HasPrefix (fileName sf) (str ''agent-'')) files"

subsection \<open>Storages, filters and sessions\<close>

text \<open>
  \<^verbatim>\<open>unicode.ToLower\<close> on ASCII, a storage with two project directories (a crew workspace
  below the rig \<^verbatim>\<open>gastown\<close> and the directory of the rig itself), and the filter of
  \<^verbatim>\<open>gt seance --all --rig gastown\<close> without a limit.
\<close>

definition asciiLower :: "rune \<Rightarrow> rune" where
  "asciiLower c = (if 65 \<le> c \<and> c \<le> 90 then c + 32 else c)"

definition crewDir :: dirEntry where
  "crewDir = DirEntry (str ''-Users-stevey-gt-gastown-crew-joe'') True
               (Inr [SessionFile (str ''abc.jsonl'') (Inr [summaryLine, beaconLine])])"

definition rigDir :: dirEntry where
  "rigDir = DirEntry (str ''-Users-stevey-gt-gastown'') True
              (Inr [SessionFile (str ''abc.jsonl'') (Inr [summaryLine, beaconLine])])"

definition rigFilter :: SessionFilter where
  "rigFilter = \<lparr>GasTownOnly = False, FilterRole = [], FilterRig = str ''gastown'',
                FilterPath = [], Limit = 0\<rparr>"

text \<open>
  Descriptors of sessions of a witness, with a name and a start time, and of a session of
  a deacon; points in time some hours after the start of the deacon's session; the filter
  of \<^verbatim>\<open>gt seance --all --role witness\<close> without a limit.
\<close>

definition witnessSession :: "string \<Rightarrow> Time \<Rightarrow> SessionInfo" where
  "witnessSession name start = \<lparr>ID = str name, Path = str ''/p'', Role = str ''witness'',
    Topic = [], StartTime = start, Summary = [], IsGasTown = True,
    FilePath = str ''/p/'' @ str name @ str ''.jsonl''\<rparr>"

definition deaconSession :: SessionInfo where
  "deaconSession = \<lparr>ID = str ''m'', Path = str ''/p'', Role = str ''deacon'', Topic = [],
    StartTime = \<lparr>instant = 63902706120000000000, offset = 0\<rparr>, Summary = [],
    IsGasTown = True, FilePath = str ''/p/m.jsonl''\<rparr>"

definition hoursLater :: "int \<Rightarrow> Time" where
  "hoursLater n = \<lparr>instant = 63902706120000000000 + 3600000000000 * n, offset = 0\<rparr>"

text \<open>
  A session of a witness without a start time (its log has no user record with a
  timestamp). Two slices of thirteen descriptors, as the walk may append them: twelve
  sessions of the witness, without a start time in the first slice and with start times
  an hour apart in the second, followed by the session of the deacon.
\<close>

definition idle :: "string \<Rightarrow> SessionInfo" where
  "idle name = witnessSession name zeroTime"



definition witnessFilter :: SessionFilter where
  "witnessFilter = \<lparr>GasTownOnly = False, FilterRole = str ''witness'', FilterRig = [],
                    FilterPath = [], Limit = 0\<rparr>"

text \<open>
  Storages: the projects directory absent; present and not readable; and one in which the
  first project directory cannot be read, the second one holds a session file that cannot
  be opened followed by one that can, and the third one is the crew workspace from above.
  The filter of \<^verbatim>\<open>gt seance --all\<close> without a limit, and the descriptors of the two session
  files that can be read.
\<close>

definition projectsPath :: gostring where
  "projectsPath = str ''/home/u/.claude/projects''"

definition absentStorage :: storage where
  "absentStorage = \<lparr>projectsDir = projectsPath, statNotExist = True,
                     rootListing = Inl (PathError projectsPath)\<rparr>"

definition deniedStorage :: storage where
  "deniedStorage = \<lparr>projectsDir = projectsPath, statNotExist = False,
                     rootListing = Inl (PathError projectsPath)\<rparr>"

definition lockedDir :: dirEntry where
  "lockedDir = DirEntry (str ''-Users-stevey-gt-beads'') True
                 (Inl (PathError (str ''-Users-stevey-gt-beads'')))"

definition lockedFile :: sessionFile where
  "lockedFile = SessionFile (str ''def.jsonl'') (Inl (PathError (str ''def.jsonl'')))"

definition goodFile :: sessionFile where
  "goodFile = SessionFile (str ''abc.jsonl'') (Inr [summaryLine, beaconLine])"

definition faultyStorage :: storage where
  "faultyStorage = \<lparr>projectsDir = projectsPath, statNotExist = False,
     rootListing = Inr ([] @ lockedDir #
       [DirEntry (str ''-Users-stevey-gt-gastown-crew-max'') True
          (Inr ([] @ lockedFile # [goodFile])),
        crewDir])\<rparr>"

definition allFilter :: SessionFilter where
  "allFilter = \<lparr>GasTownOnly = False, FilterRole = [], FilterRig = [], FilterPath = [],
                Limit = 0\<rparr>"

definition maxInfo :: SessionInfo where
  "maxInfo = \<lparr>ID = str ''abc'', Path = str ''/Users/stevey/gt/gastown/crew/max'',
    Role = str ''deacon'', Topic = str ''patrol'',
    StartTime = \<lparr>instant = 63902706120000000000, offset = 0\<rparr>,
    Summary = str ''Fix the build'', IsGasTown = True,
    FilePath = str ''/home/u/.claude/projects/-Users-stevey-gt-gastown-crew-max/abc.jsonl''\<rparr>"

definition joeInfo :: SessionInfo where
  "joeInfo = \<lparr>ID = str ''abc'', Path = str ''/Users/stevey/gt/gastown/crew/joe'',
    Role = str ''deacon'', Topic = str ''patrol'',
    StartTime = \<lparr>instant = 63902706120000000000, offset = 0\<rparr>,
    Summary = str ''Fix the build'', IsGasTown = True,
    FilePath = str ''/home/u/.claude/projects/-Users-stevey-gt-gastown-crew-joe/abc.jsonl''\<rparr>"

section \<open>Properties of the path codec\<close>

lemma str_dash: "str ''-'' = [45]"
  by (simp add: str_def)

lemma str_slash: "str ''/'' = [47]"
  by (simp add: str_def)

lemma ReplaceAll_single:
  "ReplaceAll s [a] [b] = map (\<lambda>c. if c = a then b else c) s"
proof (induction s)
  case Nil
  show ?case by (simp add: ReplaceAll.simps)
next
  case (Cons c cs)
  show ?case
  proof (cases "c = a")
    case True
    then show ?thesis
      using Cons by (subst ReplaceAll.simps) (simp add: HasPrefix_def)
  next
    case False
    then show ?thesis
      using Cons by (subst ReplaceAll.simps) (simp add: HasPrefix_def)
  qed
qed


lemma decodePath_map:
  "decodePath s = map (\<lambda>c. if c = 45 then 47 else c) s"
proof (cases s)
  case Nil
  then show ?thesis
    by (simp add: decodePath_def str_dash str_slash HasPrefix_def ReplaceAll_single)
next
  case (Cons c cs)
  then show ?thesis
    by (simp add: decodePath_def str_dash str_slash HasPrefix_def ReplaceAll_single)
qed




section \<open>Properties of the beacon matcher\<close>

lemma matchesEach_Nil: "matchesEach r [] = []"
  by (simp add: matchesEach_def)

lemma matchesEach_Cons: "matchesEach r ((s, c) # ms) = matches r s c @ matchesEach r ms"
  by (simp add: matchesEach_def)

lemma starEach_Nil: "starEach r n [] = []"
  by (simp add: starEach_def)

lemma starEach_Cons:
  "starEach r n ((s, c) # ms) = (if length s < n then matches r s c else []) @ starEach r n ms"
  by (simp add: starEach_def)

lemma matches_Seq: "matches (Seq r1 r2) s c = matchesEach r2 (matches r1 s c)"
  by (simp add: matches.simps matchesEach_def)

lemma matches_Star:
  "matches (Star r) s c = starEach (Star r) (length s) (matches r s c) @ [(s, c)]"
  by (subst matches.simps) (simp add: starEach_def)

lemma matches_StarLazy:
  "matches (StarLazy r) s c = (s, c) # starEach (StarLazy r) (length s) (matches r s c)"
  by (subst matches.simps) (simp add: starEach_def)

lemmas matches_eval = matches.simps(1,2,6,7,8) matches_Seq matches_Star matches_StarLazy
  matchesEach_Nil matchesEach_Cons starEach_Nil starEach_Cons

lemmas beacon_eval = beaconMatch_def FindStringSubmatch_def gasTownPattern_def Plus_def
  PlusLazy_def matches_eval str_def bullet_def reSpace_def TrimSpace_def isSpace_def





lemma matches_Lits_prefix:
  "matches (Lits p r) s c \<noteq> [] \<Longrightarrow> HasPrefix s p"
proof (induction p arbitrary: s)
  case Nil
  show ?case by (simp add: HasPrefix_def)
next
  case (Cons a as)
  show ?case
  proof (cases s)
    case Nil
    with Cons.prems show ?thesis
      by (simp add: matches.simps)
  next
    case (Cons x xs)
    with Cons.prems have ax: "x = a" and rest: "matches (Lits as r) xs c \<noteq> []"
      by (auto simp: matches.simps split: if_splits)
    from Cons.IH [OF rest] ax Cons show ?thesis
      by (simp add: HasPrefix_def)
  qed
qed

lemma findFrom_Lits_Contains:
  "findFrom (Lits p r) s = Some m \<Longrightarrow> Contains s p"
proof (induction s)
  case Nil
  then have "matches (Lits p r) [] [] \<noteq> []"
    by (auto split: list.splits)
  from matches_Lits_prefix [OF this] show ?case
    by (simp add: HasPrefix_def)
next
  case (Cons x xs)
  show ?case
  proof (cases "matches (Lits p r) (x # xs) []")
    case Nil
    with Cons show ?thesis by simp
  next
    case (Cons m' ms)
    then have "matches (Lits p r) (x # xs) [] \<noteq> []" by simp
    from matches_Lits_prefix [OF this] show ?thesis by simp
  qed
qed

lemma beaconMatch_needs_tag:
  assumes "\<not> Contains msgStr (str ''[GAS TOWN]'')"
  shows "beaconMatch msgStr = None"
proof (cases "findFrom gasTownPattern msgStr")
  case None
  then show ?thesis
    by (simp add: beaconMatch_def FindStringSubmatch_def)
next
  case (Some m)
  then have "Contains msgStr (str ''[GAS TOWN]'')"
    unfolding gasTownPattern_def by (rule findFrom_Lits_Contains)
  with assms show ?thesis by simp
qed







section \<open>Properties of the record decoder\<close>

lemmas json_eval = findField_def equalFold_def
  foldRune_def getString_def getRaw_def contentObj_def userEntry_def summaryEntry_def str_def

lemma extract_empty: "extractMessageContent None = []"
  by (simp add: extractMessageContent_def)

lemma extract_string_first:
  "UnmarshalString (Valid v) = (s, None) \<Longrightarrow> extractMessageContent (Some v) = s"
  by (simp add: extractMessageContent_def)

lemma extract_object_second:
  "UnmarshalString (Valid v) = (s, Some e) \<Longrightarrow> Unmarshal contentObj (Valid v) = (obj, None) \<Longrightarrow>
   extractMessageContent (Some v) = getString obj (str ''content'')"
  by (simp add: extractMessageContent_def)

lemma extract_neither:
  "UnmarshalString (Valid v) = (s, Some e) \<Longrightarrow> Unmarshal contentObj (Valid v) = (obj, Some e') \<Longrightarrow>
   extractMessageContent (Some v) = []"
  by (simp add: extractMessageContent_def)

lemma extract_JString: "extractMessageContent (Some (JString s)) = s"
  by (simp add: extractMessageContent_def)

lemma extract_content_object:
  "extractMessageContent
     (Some (JObject [(str ''role'', JString r), (str ''content'', JString s)])) = s"
  by (simp add: extractMessageContent_def json_eval)

lemma extract_JArray: "extractMessageContent (Some (JArray vs)) = []"
  by (simp add: extractMessageContent_def)

text \<open>
  C4. \<open>extractMessageContent\<close> returns the empty string for the empty payload; when the
  payload decodes as a string it returns that string; only when that decoding fails does
  the decoding as an object with a \<^verbatim>\<open>content\<close> field count, and its content string is
  returned; when both fail the result is the empty string. So a JSON string gives itself,
  an object gives its \<^verbatim>\<open>content\<close> and an array gives the empty string.
\<close>

theorem extractMessageContent_order:
  "extractMessageContent None = [] \<and>
   (UnmarshalString (Valid v1) = (s1, None) \<longrightarrow> extractMessageContent (Some v1) = s1) \<and>
   (UnmarshalString (Valid v2) = (s2, Some e2) \<and> Unmarshal contentObj (Valid v2) = (obj2, None) \<longrightarrow>
      extractMessageContent (Some v2) = getString obj2 (str ''content'')) \<and>
   (UnmarshalString (Valid v3) = (s3, Some e3) \<and>
    Unmarshal contentObj (Valid v3) = (obj3, Some e3') \<longrightarrow>
      extractMessageContent (Some v3) = []) \<and>
   extractMessageContent (Some (JString s)) = s \<and>
   extractMessageContent
     (Some (JObject [(str ''role'', JString r), (str ''content'', JString s)])) = s \<and>
   extractMessageContent (Some (JArray vs)) = []"
  using extract_empty extract_string_first [of v1 s1] extract_object_second [of v2 s2 e2 obj2]
    extract_neither [of v3 s3 e3 obj3 e3'] extract_JString [of s] extract_content_object [of r s]
    extract_JArray [of vs]
  by blast

theorem extractMessageContent_order_witness:
  "UnmarshalString (Valid (JString (str ''hi''))) = (str ''hi'', None) \<and>
   extractMessageContent (Some (JString (str ''hi''))) = str ''hi'' \<and>
   UnmarshalString (Valid (JObject [(str ''content'', JString (str ''yo''))])) =
     ([], Some UnmarshalTypeError) \<and>
   Unmarshal contentObj (Valid (JObject [(str ''content'', JString (str ''yo''))])) =
     ([(str ''content'', VString (str ''yo''))], None) \<and>
   extractMessageContent (Some (JObject [(str ''content'', JString (str ''yo''))])) = str ''yo'' \<and>
   UnmarshalString (Valid (JObject [(str ''content'', JArray [])])) =
     ([], Some UnmarshalTypeError) \<and>
   Unmarshal contentObj (Valid (JObject [(str ''content'', JArray [])])) =
     ([], Some UnmarshalTypeError) \<and>
   extractMessageContent (Some (JObject [(str ''content'', JArray [])])) = []"
proof -
  have a: "UnmarshalString (Valid (JString (str ''hi''))) = (str ''hi'', None)"
    by simp
  have b: "UnmarshalString (Valid (JObject [(str ''content'', JString (str ''yo''))])) =
     ([], Some UnmarshalTypeError)"
    by simp
  have c: "Unmarshal contentObj (Valid (JObject [(str ''content'', JString (str ''yo''))])) =
     ([(str ''content'', VString (str ''yo''))], None)"
    by (simp add: json_eval)
  have d: "UnmarshalString (Valid (JObject [(str ''content'', JArray [])])) =
     ([], Some UnmarshalTypeError)"
    by simp
  have e: "Unmarshal contentObj (Valid (JObject [(str ''content'', JArray [])])) =
     ([], Some UnmarshalTypeError)"
    by (simp add: json_eval)
  have f: "getString [(str ''content'', VString (str ''yo''))] (str ''content'') = str ''yo''"
    by (simp add: json_eval)
  from a b c d e f
    extractMessageContent_order [of "JString (str ''hi'')" "str ''hi''"
      "JObject [(str ''content'', JString (str ''yo''))]" "[]" UnmarshalTypeError
      "[(str ''content'', VString (str ''yo''))]"
      "JObject [(str ''content'', JArray [])]" "[]" UnmarshalTypeError "[]" UnmarshalTypeError]
  show ?thesis by simp
qed

section \<open>Properties of the session scanner\<close>

lemma firstLine_fields [simp]:
  "ID (firstLine l info) = ID info"
  "Path (firstLine l info) = Path info"
  "Role (firstLine l info) = Role info"
  "Topic (firstLine l info) = Topic info"
  "StartTime (firstLine l info) = StartTime info"
  "IsGasTown (firstLine l info) = IsGasTown info"
  "FilePath (firstLine l info) = FilePath info"
  by (simp_all add: firstLine_def split: prod.splits)

lemma setStartTime_fields [simp]:
  "ID (setStartTime p e info) = ID info"
  "Path (setStartTime p e info) = Path info"
  "Role (setStartTime p e info) = Role info"
  "Topic (setStartTime p e info) = Topic info"
  "Summary (setStartTime p e info) = Summary info"
  "IsGasTown (setStartTime p e info) = IsGasTown info"
  "FilePath (setStartTime p e info) = FilePath info"
  by (simp_all add: setStartTime_def split: option.splits)

lemma setSessionID_fields [simp]:
  "Path (setSessionID e info) = Path info"
  "Role (setSessionID e info) = Role info"
  "Topic (setSessionID e info) = Topic info"
  "StartTime (setSessionID e info) = StartTime info"
  "Summary (setSessionID e info) = Summary info"
  "IsGasTown (setSessionID e info) = IsGasTown info"
  "FilePath (setSessionID e info) = FilePath info"
  by (simp_all add: setSessionID_def)

lemma setBeacon_fields [simp]:
  "ID (setBeacon e info) = ID info"
  "Path (setBeacon e info) = Path info"
  "StartTime (setBeacon e info) = StartTime info"
  "Summary (setBeacon e info) = Summary info"
  "FilePath (setBeacon e info) = FilePath info"
  by (simp_all add: setBeacon_def split: option.splits)

lemma setBeacon_beaconed [simp]:
  "IsGasTown info \<Longrightarrow> setBeacon e info = info"
  by (simp add: setBeacon_def)

lemma setBeacon_inv:
  "\<not> IsGasTown (setBeacon e info) \<Longrightarrow> setBeacon e info = info"
  by (auto simp: setBeacon_def split: option.splits)

lemma laterLine_inv:
  assumes "\<not> IsGasTown info \<longrightarrow> Role info = [] \<and> Topic info = []"
  shows "\<not> IsGasTown (laterLine p e info) \<longrightarrow>
         Role (laterLine p e info) = [] \<and> Topic (laterLine p e info) = []"
proof (cases "getString e (str ''type'') = str ''user''")
  case False
  with assms show ?thesis by (simp add: laterLine_def)
next
  case True
  let ?i = "setSessionID e (setStartTime p e info)"
  show ?thesis
  proof
    assume nb: "\<not> IsGasTown (laterLine p e info)"
    with True have nb': "\<not> IsGasTown (setBeacon e ?i)"
      by (simp add: laterLine_def userRecord_def)
    then have eq: "setBeacon e ?i = ?i" by (rule setBeacon_inv)
    with nb' have "\<not> IsGasTown info" by simp
    with assms eq True show "Role (laterLine p e info) = [] \<and> Topic (laterLine p e info) = []"
      by (simp add: laterLine_def userRecord_def)
  qed
qed

lemma scanLines_inv:
  "(\<not> IsGasTown info \<longrightarrow> Role info = [] \<and> Topic info = []) \<Longrightarrow>
   \<not> IsGasTown (fst (scanLines p n info ls)) \<longrightarrow>
     Role (fst (scanLines p n info ls)) = [] \<and> Topic (fst (scanLines p n info ls)) = []"
proof (induction ls arbitrary: n info)
  case Nil
  then show ?case by simp
next
  case (Cons l ls)
  show ?case
  proof (cases "n + 1 = 1")
    case True
    with Cons.IH [of "firstLine l info" "n + 1"] Cons.prems show ?thesis
      by simp
  next
    case False
    obtain entry err where u: "Unmarshal userEntry l = (entry, err)"
      by (cases "Unmarshal userEntry l")
    show ?thesis
    proof (cases err)
      case (Some e)
      with False u Cons.IH [of info "n + 1"] Cons.prems show ?thesis
        by simp
    next
      case None
      note inv' = laterLine_inv [OF Cons.prems, of p entry]
      from None False u Cons.IH [OF inv', of "n + 1"] inv' show ?thesis
        by (simp add: Let_def)
    qed
  qed
qed

text \<open>
  C10. In every descriptor that \<open>parseSession\<close> produces, a role or a topic that is not
  empty implies that the descriptor is marked as beaconed: without the mark, role and topic
  are empty.
\<close>

theorem role_topic_imply_beacon:
  assumes "parseSession parseTime file filePath projectPath = Inr info"
  shows "(Role info \<noteq> [] \<or> Topic info \<noteq> [] \<longrightarrow> IsGasTown info) \<and>
         (\<not> IsGasTown info \<longrightarrow> Role info = [] \<and> Topic info = [])"
proof -
  from assms obtain ls where
    info: "info = fst (scanLines parseTime 0 (newSessionInfo filePath projectPath) ls)"
    by (auto simp: parseSession_def split: sum.splits)
  have "\<not> IsGasTown (newSessionInfo filePath projectPath) \<longrightarrow>
        Role (newSessionInfo filePath projectPath) = [] \<and>
        Topic (newSessionInfo filePath projectPath) = []"
    by (simp add: newSessionInfo_def)
  from scanLines_inv [OF this, of parseTime 0 ls] info show ?thesis
    by blast
qed

lemma scan_step:
  "scanLines p n info (l # ls) =
     (if n = 0 then scanLines p (Suc n) (firstLine l info) ls
      else if \<not> decodes l then scanLines p (Suc n) info ls
      else if stopNow (laterLine p (fst (Unmarshal userEntry l)) info) \<and> 20 < Suc n
           then (laterLine p (fst (Unmarshal userEntry l)) info, Suc n)
           else scanLines p (Suc n) (laterLine p (fst (Unmarshal userEntry l)) info) ls)"
  by (auto simp: decodes_def stopNow_def Let_def split: prod.splits option.splits)

declare scanLines.simps(2) [simp del]

lemma scan_continue:
  assumes "n = 0 \<or> \<not> decodes l \<or> \<not> (stopNow (laterLine p (fst (Unmarshal userEntry l)) info) \<and> 20 < Suc n)"
  shows "\<exists>i'. \<forall>ls. scanLines p n info (l # ls) = scanLines p (Suc n) i' ls"
proof (cases "n = 0")
  case True
  then show ?thesis by (intro exI [of _ "firstLine l info"]) (simp add: scan_step)
next
  case n: False
  show ?thesis
  proof (cases "decodes l")
    case False
    with n show ?thesis by (intro exI [of _ info]) (simp add: scan_step)
  next
    case True
    with n assms show ?thesis
      by (intro exI [of _ "laterLine p (fst (Unmarshal userEntry l)) info"]) (auto simp: scan_step)
  qed
qed

lemma scan_bounds:
  "n \<le> snd (scanLines p n info ls) \<and> snd (scanLines p n info ls) \<le> n + length ls"
proof (induction ls arbitrary: n info)
  case Nil
  show ?case by simp
next
  case (Cons l ls)
  from Cons [of "Suc n" "firstLine l info"] Cons [of "Suc n" info]
    Cons [of "Suc n" "laterLine p (fst (Unmarshal userEntry l)) info"]
  show ?case
    by (auto simp: scan_step)
qed

lemma scan_early_iff:
  "snd (scanLines p n info ls) < n + length ls \<longleftrightarrow> (\<exists>k. earlyAt p n info ls k)"
proof (induction ls arbitrary: n info)
  case Nil
  show ?case by (simp add: earlyAt_def)
next
  case (Cons l ls)
  let ?i = "laterLine p (fst (Unmarshal userEntry l)) info"
  show ?case
  proof (cases "n \<noteq> 0 \<and> decodes l \<and> stopNow ?i \<and> 20 < Suc n")
    case True
    then have res: "\<And>xs. scanLines p n info (l # xs) = (?i, Suc n)"
      by (simp add: scan_step)
    show ?thesis
    proof
      assume "snd (scanLines p n info (l # ls)) < n + length (l # ls)"
      with res have "ls \<noteq> []" by simp
      with True res [of "[]"] have "earlyAt p n info (l # ls) 1"
        by (simp add: earlyAt_def)
      then show "\<exists>k. earlyAt p n info (l # ls) k" ..
    next
      assume "\<exists>k. earlyAt p n info (l # ls) k"
      then have "ls \<noteq> []" by (auto simp: earlyAt_def)
      with res show "snd (scanLines p n info (l # ls)) < n + length (l # ls)"
        by simp
    qed
  next
    case False
    then have "n = 0 \<or> \<not> decodes l \<or> \<not> (stopNow ?i \<and> 20 < Suc n)" by blast
    from scan_continue [OF this] obtain i' where
      cont: "\<And>xs. scanLines p n info (l # xs) = scanLines p (Suc n) i' xs"
      by blast
    have one: "\<not> earlyAt p n info (l # ls) 1"
    proof
      assume e: "earlyAt p n info (l # ls) 1"
      then have d: "decodes l" and n: "20 < Suc n" and s: "stopNow (fst (scanLines p n info [l]))"
        by (simp_all add: earlyAt_def)
      from n have n0: "n \<noteq> 0" by simp
      with d False n have ns: "\<not> stopNow ?i" by blast
      with n0 d have "scanLines p n info [l] = (?i, Suc n)"
        by (simp add: scan_step)
      with s ns show False by simp
    qed
    have shift: "earlyAt p n info (l # ls) (Suc j) \<longleftrightarrow> earlyAt p (Suc n) i' ls j" if "0 < j" for j
      using that cont [of "take j ls"] by (cases j) (auto simp: earlyAt_def)
    have "(\<exists>k. earlyAt p n info (l # ls) k) \<longleftrightarrow> (\<exists>j. earlyAt p (Suc n) i' ls j)"
    proof
      assume "\<exists>k. earlyAt p n info (l # ls) k"
      then obtain k where k: "earlyAt p n info (l # ls) k" ..
      then have "0 < k" by (simp add: earlyAt_def)
      with one k have "1 < k" by (cases "k = 1") auto
      then obtain j where j: "k = Suc j" "0 < j" by (cases k) auto
      with k shift [of j] show "\<exists>j. earlyAt p (Suc n) i' ls j" by blast
    next
      assume "\<exists>j. earlyAt p (Suc n) i' ls j"
      then obtain j where j: "earlyAt p (Suc n) i' ls j" ..
      then have "0 < j" by (simp add: earlyAt_def)
      with j shift [of j] show "\<exists>k. earlyAt p n info (l # ls) k" by blast
    qed
    with Cons.IH [of "Suc n" i'] cont [of ls] show ?thesis
      by simp
  qed
qed

lemma scan_no_beacon_reads_all:
  "\<not> IsGasTown (fst (scanLines p n info ls)) \<Longrightarrow> snd (scanLines p n info ls) = n + length ls"
proof (induction ls arbitrary: n info)
  case Nil
  show ?case by simp
next
  case (Cons l ls)
  from Cons.prems Cons.IH [of "Suc n" "firstLine l info"] Cons.IH [of "Suc n" info]
    Cons.IH [of "Suc n" "laterLine p (fst (Unmarshal userEntry l)) info"]
  show ?case
    by (auto simp: scan_step stopNow_def split: if_splits)
qed

lemma settled_refl: "settled info info"
  by (simp add: settled_def)

lemma settled_trans: "settled a b \<Longrightarrow> settled b c \<Longrightarrow> settled a c"
  by (auto simp: settled_def)

lemma settled_firstLine: "settled info (firstLine l info)"
  by (simp add: settled_def)

lemma setStartTime_set: "\<not> IsZero (StartTime info) \<Longrightarrow> setStartTime p e info = info"
  by (simp add: setStartTime_def)

lemma settled_laterLine: "settled info (laterLine p e info)"
proof -
  have "settled info (setStartTime p e info)"
    by (auto simp: settled_def setStartTime_set)
  moreover have "settled (setStartTime p e info) (setSessionID e (setStartTime p e info))"
    by (simp add: settled_def)
  moreover have "settled (setSessionID e (setStartTime p e info))
                   (setBeacon e (setSessionID e (setStartTime p e info)))"
    by (auto simp: settled_def)
  ultimately have "settled info (userRecord p e info)"
    unfolding userRecord_def by (blast intro: settled_trans)
  then show ?thesis
    by (simp add: laterLine_def settled_refl)
qed

lemma scan_settled: "settled info (fst (scanLines p n info ls))"
proof (induction ls arbitrary: n info)
  case Nil
  show ?case by (simp add: settled_refl)
next
  case (Cons l ls)
  let ?i = "laterLine p (fst (Unmarshal userEntry l)) info"
  have a: "settled info (fst (scanLines p (Suc n) (firstLine l info) ls))"
    using settled_firstLine Cons by (rule settled_trans)
  have b: "settled info (fst (scanLines p (Suc n) ?i ls))"
    using settled_laterLine Cons by (rule settled_trans)
  from a b Cons [of info "Suc n"] settled_laterLine [of info p "fst (Unmarshal userEntry l)"]
  show ?case
    by (auto simp: scan_step)
qed

lemma scan_prefix_settled:
  "settled (fst (scanLines p n info (take k ls))) (fst (scanLines p n info ls))"
proof (induction ls arbitrary: n info k)
  case Nil
  show ?case by (simp add: settled_refl)
next
  case (Cons l ls)
  show ?case
  proof (cases k)
    case 0
    then show ?thesis by (simp add: scan_settled)
  next
    case (Suc j)
    with Cons [of "Suc n" _ j] show ?thesis
      by (auto simp: scan_step settled_refl)
  qed
qed

lemma scan_keeps_start:
  "\<not> IsZero (StartTime info) \<Longrightarrow> StartTime (fst (scanLines p n info ls)) = StartTime info"
  using scan_settled [of info p n ls] by (simp add: settled_def)

lemma laterLine_start:
  assumes "IsZero (StartTime info)" "decodes l"
  shows "StartTime (laterLine p (fst (Unmarshal userEntry l)) info) =
         (case userTimestamp p l of Some t \<Rightarrow> t | None \<Rightarrow> StartTime info)"
  using assms
  by (cases "Unmarshal userEntry l")
     (auto simp: laterLine_def userRecord_def setStartTime_def userTimestamp_def decodes_def
           split: option.splits)

lemma userTimestamp_undecoded: "\<not> decodes l \<Longrightarrow> userTimestamp p l = None"
  by (cases "Unmarshal userEntry l") (auto simp: userTimestamp_def decodes_def)

lemma scan_start_later:
  assumes "0 < n" "IsZero (StartTime info)"
  shows "(\<forall>t. firstNonZero (List.map_filter (userTimestamp p) ls) = Some t \<longrightarrow>
              StartTime (fst (scanLines p n info ls)) = t) \<and>
         (firstNonZero (List.map_filter (userTimestamp p) ls) = None \<longrightarrow>
              IsZero (StartTime (fst (scanLines p n info ls))))"
  using assms
proof (induction ls arbitrary: n info)
  case Nil
  then show ?case by (simp add: firstNonZero_def)
next
  case (Cons l ls)
  let ?i = "laterLine p (fst (Unmarshal userEntry l)) info"
  show ?case
  proof (cases "decodes l")
    case False
    with Cons.IH [of "Suc n" info] Cons.prems show ?thesis
      by (simp add: scan_step userTimestamp_undecoded)
  next
    case True
    note st = laterLine_start [OF Cons.prems(2) True, of p]
    show ?thesis
    proof (cases "userTimestamp p l")
      case None
      with st have z: "IsZero (StartTime ?i)" using Cons.prems by simp
      with Cons.IH [of "Suc n" ?i] Cons.prems True None show ?thesis
        by (simp add: scan_step stopNow_def)
    next
      case (Some t)
      with st have t: "StartTime ?i = t" by simp
      show ?thesis
      proof (cases "IsZero t")
        case True
        with t have z: "IsZero (StartTime ?i)" by simp
        with Cons.IH [of "Suc n" ?i] Cons.prems \<open>decodes l\<close> Some True show ?thesis
          by (simp add: scan_step stopNow_def firstNonZero_def)
      next
        case False
        with t have nz: "\<not> IsZero (StartTime ?i)" by simp
        from scan_keeps_start [OF nz, of p "Suc n" ls] t
        have "StartTime (fst (scanLines p (Suc n) ?i ls)) = t" by simp
        with Cons.prems \<open>decodes l\<close> Some False t show ?thesis
          by (simp add: scan_step firstNonZero_def)
      qed
    qed
  qed
qed

lemma scan_start_time:
  "(\<forall>t. firstNonZero (offeredTimes p ls) = Some t \<longrightarrow>
        StartTime (fst (scanLines p 0 (newSessionInfo fp pp) ls)) = t) \<and>
   (firstNonZero (offeredTimes p ls) = None \<longrightarrow>
        IsZero (StartTime (fst (scanLines p 0 (newSessionInfo fp pp) ls))))"
proof (cases ls)
  case Nil
  then show ?thesis
    by (simp add: offeredTimes_def firstNonZero_def newSessionInfo_def IsZero_def zeroTime_def)
next
  case (Cons l rest)
  have "IsZero (StartTime (firstLine l (newSessionInfo fp pp)))"
    by (simp add: newSessionInfo_def IsZero_def zeroTime_def)
  from scan_start_later [OF _ this, of "Suc 0" p rest] Cons show ?thesis
    by (simp add: offeredTimes_def scan_step)
qed

lemma setStartTime_Summary:
  "setStartTime p e (info\<lparr>Summary := x\<rparr>) = (setStartTime p e info)\<lparr>Summary := x\<rparr>"
  by (simp add: setStartTime_def split: option.splits)

lemma setSessionID_Summary:
  "setSessionID e (info\<lparr>Summary := x\<rparr>) = (setSessionID e info)\<lparr>Summary := x\<rparr>"
  by (simp add: setSessionID_def)

lemma setBeacon_Summary:
  "setBeacon e (info\<lparr>Summary := x\<rparr>) = (setBeacon e info)\<lparr>Summary := x\<rparr>"
  by (simp add: setBeacon_def split: option.splits)

lemma laterLine_Summary_update:
  "laterLine p e (info\<lparr>Summary := x\<rparr>) = (laterLine p e info)\<lparr>Summary := x\<rparr>"
  by (simp add: laterLine_def userRecord_def setStartTime_Summary setSessionID_Summary
      setBeacon_Summary)

lemma stopNow_Summary: "stopNow (info\<lparr>Summary := x\<rparr>) = stopNow info"
  by (simp add: stopNow_def)

lemma scan_Summary_update:
  "0 < n \<Longrightarrow>
   scanLines p n (info\<lparr>Summary := x\<rparr>) ls =
     ((fst (scanLines p n info ls))\<lparr>Summary := x\<rparr>, snd (scanLines p n info ls))"
proof (induction ls arbitrary: n info)
  case Nil
  show ?case by simp
next
  case (Cons l ls)
  let ?i = "laterLine p (fst (Unmarshal userEntry l)) info"
  from Cons.prems have n: "n \<noteq> 0" by simp
  show ?case
  proof (cases "decodes l")
    case False
    with n Cons.IH [of "Suc n" info] show ?thesis
      by (simp add: scan_step)
  next
    case True
    show ?thesis
    proof (cases "stopNow ?i \<and> 20 < Suc n")
      case st: True
      with n True show ?thesis
        by (simp only: scan_step laterLine_Summary_update stopNow_Summary if_False if_True
            simp_thms fst_conv snd_conv)
    next
      case st: False
      with n True Cons.IH [of "Suc n" ?i] show ?thesis
        by (simp only: scan_step laterLine_Summary_update stopNow_Summary if_False if_True
            simp_thms)
    qed
  qed
qed

lemma firstLine_new:
  "firstLine l (newSessionInfo fp pp) = (newSessionInfo fp pp)\<lparr>Summary := firstSummary l\<rparr>"
  by (simp add: firstLine_def firstSummary_def newSessionInfo_def split: prod.splits)

lemma scan_first_line:
  "scanLines p 0 (newSessionInfo fp pp) (l # rest) =
     ((fst (scanLines p (Suc 0) (newSessionInfo fp pp) rest))\<lparr>Summary := firstSummary l\<rparr>,
      snd (scanLines p (Suc 0) (newSessionInfo fp pp) rest))"
proof -
  have "scanLines p 0 (newSessionInfo fp pp) (l # rest) =
        scanLines p (Suc 0) ((newSessionInfo fp pp)\<lparr>Summary := firstSummary l\<rparr>) rest"
    by (simp add: scan_step firstLine_new)
  also have "\<dots> = ((fst (scanLines p (Suc 0) (newSessionInfo fp pp) rest))
                       \<lparr>Summary := firstSummary l\<rparr>,
                     snd (scanLines p (Suc 0) (newSessionInfo fp pp) rest))"
    by (rule scan_Summary_update) simp
  finally show ?thesis .
qed


subsection \<open>Scanning the example files\<close>

lemma first_summary:
  "firstLine summaryLine (newSessionInfo (str ''/p/abc.jsonl'') (str ''/p'')) = summaryInfo"
  by (simp add: firstLine_def summaryLine_def newSessionInfo_def summaryInfo_def Base_def
      TrimSuffix_def HasSuffix_def Let_def json_eval)

lemma unmarshal_beacon: "Unmarshal userEntry beaconLine = (beaconEntry, None)"
  by (simp add: beaconLine_def beaconEntry_def json_eval)

lemma beacon_of_entry:
  "beaconMatch (extractMessageContent (getRaw beaconEntry (str ''message''))) =
     Some (str ''deacon'', str ''patrol'')"
proof -
  have "extractMessageContent (getRaw beaconEntry (str ''message'')) =
        str ''[GAS TOWN] deacon '' @ [bullet] @ str '' patrol''"
    by (simp add: beaconEntry_def extractMessageContent_def json_eval)
  moreover have "beaconMatch (str ''[GAS TOWN] deacon '' @ [bullet] @ str '' patrol'') =
     Some (str ''deacon'', str ''patrol'')"
    by (simp add: beacon_eval)
  ultimately show ?thesis by simp
qed

lemma later_beacon:
  "laterLine exampleParse beaconEntry summaryInfo = exampleInfo"
proof -
  have a: "setStartTime exampleParse beaconEntry summaryInfo =
           summaryInfo\<lparr>StartTime := \<lparr>instant = 63902706120000000000, offset = 0\<rparr>\<rparr>"
    by (simp add: setStartTime_def beaconEntry_def summaryInfo_def exampleParse_def IsZero_def
        zeroTime_def getString_def str_def)
  have b: "setSessionID beaconEntry
             (summaryInfo\<lparr>StartTime := \<lparr>instant = 63902706120000000000, offset = 0\<rparr>\<rparr>) =
           summaryInfo\<lparr>StartTime := \<lparr>instant = 63902706120000000000, offset = 0\<rparr>\<rparr>"
    by (simp add: setSessionID_def summaryInfo_def str_def)
  have c: "setBeacon beaconEntry
             (summaryInfo\<lparr>StartTime := \<lparr>instant = 63902706120000000000, offset = 0\<rparr>\<rparr>) =
           exampleInfo"
    by (simp add: setBeacon_def beacon_of_entry) (simp add: summaryInfo_def exampleInfo_def)
  have d: "getString beaconEntry (str ''type'') = str ''user''"
    by (simp add: beaconEntry_def getString_def str_def)
  from a b c d show ?thesis
    by (simp add: laterLine_def userRecord_def)
qed

lemma scan_head:
  "scanLines exampleParse 0 (newSessionInfo (str ''/p/abc.jsonl'') (str ''/p''))
     (summaryLine # beaconLine # ls) = scanLines exampleParse 2 exampleInfo ls"
  by (simp add: scan_step first_summary decodes_def unmarshal_beacon later_beacon
      numeral_2_eq_2)

lemma unmarshal_assistant:
  "Unmarshal userEntry assistantLine = ([(str ''type'', VString (str ''assistant''))], None)"
  by (simp add: assistantLine_def json_eval)

lemma decodes_assistant: "decodes assistantLine"
  by (simp add: decodes_def unmarshal_assistant)

lemma later_assistant: "laterLine p (fst (Unmarshal userEntry assistantLine)) info = info"
  by (simp add: unmarshal_assistant laterLine_def getString_def str_def)

lemma stopNow_example: "stopNow exampleInfo"
  by (simp add: stopNow_def exampleInfo_def IsZero_def)

lemma scan_assistant:
  "0 < n \<Longrightarrow> scanLines p n exampleInfo (assistantLine # ls) =
     (if 20 < Suc n then (exampleInfo, Suc n) else scanLines p (Suc n) exampleInfo ls)"
  by (simp add: scan_step decodes_assistant later_assistant stopNow_example)

lemma scan_invalid:
  "0 < n \<Longrightarrow> scanLines p n info (Invalid # ls) = scanLines p (Suc n) info ls"
  by (simp add: scan_step decodes_def)

lemma unmarshal_userLine:
  "Unmarshal userEntry (userLine ts) =
     ([(str ''message'', VRaw (JString (str ''hello''))), (str ''timestamp'', VString (str ts)),
       (str ''type'', VString (str ''user''))], None)"
  by (simp add: userLine_def json_eval)

lemma decodes_userLine: "decodes (userLine ts)"
  by (simp add: decodes_def unmarshal_userLine)

lemma beacon_hello: "beaconMatch (str ''hello'') = None"
  by (rule beaconMatch_needs_tag) (simp add: HasPrefix_def str_def)

lemma later_userLine:
  assumes "ID info \<noteq> []"
  shows "laterLine p (fst (Unmarshal userEntry (userLine ts))) info =
     (if str ts \<noteq> [] \<and> IsZero (StartTime info)
      then (case p (str ts) of Some t \<Rightarrow> info\<lparr>StartTime := t\<rparr> | None \<Rightarrow> info)
      else info)"
proof -
  let ?e = "[(str ''message'', VRaw (JString (str ''hello''))), (str ''timestamp'', VString (str ts)),
       (str ''type'', VString (str ''user''))]"
  have ty: "getString ?e (str ''type'') = str ''user''"
    by (simp add: getString_def str_def)
  have tm: "getString ?e (str ''timestamp'') = str ts"
    by (simp add: getString_def str_def)
  have bm: "beaconMatch (extractMessageContent (getRaw ?e (str ''message''))) = None"
    by (simp add: getRaw_def extractMessageContent_def beacon_hello)
  have sb: "setBeacon ?e i = i" for i
    by (simp add: setBeacon_def bm)
  have si: "setSessionID ?e i = i" if "ID i \<noteq> []" for i
    using that by (simp add: setSessionID_def)
  have st: "setStartTime p ?e info =
     (if str ts \<noteq> [] \<and> IsZero (StartTime info)
      then (case p (str ts) of Some t \<Rightarrow> info\<lparr>StartTime := t\<rparr> | None \<Rightarrow> info)
      else info)"
    by (simp only: setStartTime_def tm)
  have "ID (setStartTime p ?e info) \<noteq> []"
    using assms by simp
  then have "laterLine p (fst (Unmarshal userEntry (userLine ts))) info = setStartTime p ?e info"
    by (simp add: unmarshal_userLine laterLine_def userRecord_def ty sb si)
  with st show ?thesis by simp
qed

lemma summaryInfo_ID: "ID summaryInfo \<noteq> []"
  by (simp add: summaryInfo_def str_def)

lemma parse_example [simp]:
  "exampleParse (str ''0001-01-01T00:00:00Z'') = Some \<lparr>instant = 0, offset = 0\<rparr>"
  "exampleParse (str ''2025-12-30T15:42:00Z'') = Some \<lparr>instant = 63902706120000000000, offset = 0\<rparr>"
  by (simp_all add: exampleParse_def str_def)

lemma scan_zeroFirstFile:
  "scanLines exampleParse 0 (newSessionInfo (str ''/p/abc.jsonl'') (str ''/p'')) zeroFirstFile =
     (plainInfo, 3)"
proof -
  have a: "laterLine exampleParse (fst (Unmarshal userEntry (userLine ''0001-01-01T00:00:00Z'')))
             summaryInfo = summaryInfo"
    by (simp add: later_userLine [OF summaryInfo_ID]) (simp add: summaryInfo_def zeroTime_def)
  have b: "laterLine exampleParse (fst (Unmarshal userEntry (userLine ''2025-12-30T15:42:00Z'')))
             summaryInfo = plainInfo"
    by (simp add: later_userLine [OF summaryInfo_ID] plainInfo_def)
       (simp add: summaryInfo_def zeroTime_def IsZero_def str_def)
  show ?thesis
    by (simp add: zeroFirstFile_def scan_step first_summary decodes_userLine a b stopNow_def)
qed

lemma offered_zeroFirstFile:
  "offeredTimes exampleParse zeroFirstFile =
     [\<lparr>instant = 0, offset = 0\<rparr>, \<lparr>instant = 63902706120000000000, offset = 0\<rparr>]"
  by (simp add: offeredTimes_def zeroFirstFile_def userTimestamp_def unmarshal_userLine
      getString_def) (simp add: str_def)

lemma scan_plainFile:
  "scanLines exampleParse 0 (newSessionInfo (str ''/p/abc.jsonl'') (str ''/p'')) (plainFile 3) =
     (plainInfo, 5)"
proof -
  have b: "laterLine exampleParse (fst (Unmarshal userEntry (userLine ''2025-12-30T15:42:00Z'')))
             summaryInfo = plainInfo"
    by (simp add: later_userLine [OF summaryInfo_ID] plainInfo_def)
       (simp add: summaryInfo_def zeroTime_def IsZero_def str_def)
  have c: "\<not> stopNow plainInfo"
    by (simp add: stopNow_def plainInfo_def summaryInfo_def)
  show ?thesis
    by (simp add: plainFile_def scan_step first_summary decodes_userLine b c decodes_assistant
        later_assistant eval_nat_numeral)
qed


lemma scan_zeroOnlyFile:
  "scanLines exampleParse 0 (newSessionInfo (str ''/p/abc.jsonl'') (str ''/p''))
     [summaryLine, userLine ''0001-01-01T00:00:00Z''] = (summaryInfo, 2)"
proof -
  have a: "laterLine exampleParse (fst (Unmarshal userEntry (userLine ''0001-01-01T00:00:00Z'')))
             summaryInfo = summaryInfo"
    by (simp add: later_userLine [OF summaryInfo_ID]) (simp add: summaryInfo_def zeroTime_def)
  have c: "\<not> stopNow summaryInfo"
    by (simp add: stopNow_def summaryInfo_def)
  show ?thesis
    by (simp add: scan_step first_summary decodes_userLine a c numeral_2_eq_2)
qed

lemma offered_zeroOnlyFile:
  "offeredTimes exampleParse [summaryLine, userLine ''0001-01-01T00:00:00Z''] =
     [\<lparr>instant = 0, offset = 0\<rparr>]"
  by (simp add: offeredTimes_def userTimestamp_def unmarshal_userLine getString_def)
     (simp add: str_def)

lemma scan_beaconFile:
  "scanLines exampleParse 0 (newSessionInfo (str ''/p/abc.jsonl'') (str ''/p'')) (beaconFile 19) =
     (exampleInfo, 21)"
  by (simp add: beaconFile_def scan_head scan_assistant eval_nat_numeral)

lemma scan_beaconFile_20:
  "scanLines exampleParse 0 (newSessionInfo (str ''/p/abc.jsonl'') (str ''/p''))
     (take 20 (beaconFile 19)) = (exampleInfo, 20)"
  by (simp add: beaconFile_def scan_head scan_assistant eval_nat_numeral)

lemma scan_brokenFile:
  "scanLines exampleParse 0 (newSessionInfo (str ''/p/abc.jsonl'') (str ''/p'')) (brokenFile 23) =
     (exampleInfo, 25)"
  by (simp add: brokenFile_def scan_head scan_invalid eval_nat_numeral)

lemma scan_brokenFile_21:
  "scanLines exampleParse 0 (newSessionInfo (str ''/p/abc.jsonl'') (str ''/p''))
     (take 21 (brokenFile 23)) = (exampleInfo, 21)"
  by (simp add: brokenFile_def scan_head scan_invalid eval_nat_numeral)

lemma scan_beaconFile_22:
  "scanLines exampleParse 0 (newSessionInfo (str ''/p/abc.jsonl'') (str ''/p'')) (beaconFile 20) =
     (exampleInfo, 21)"
  by (simp add: beaconFile_def scan_head scan_assistant eval_nat_numeral)

lemma scan_beaconFile_22_21:
  "scanLines exampleParse 0 (newSessionInfo (str ''/p/abc.jsonl'') (str ''/p''))
     (take 21 (beaconFile 20)) = (exampleInfo, 21)"
  by (simp add: beaconFile_def scan_head scan_assistant eval_nat_numeral)

lemma scannerLines_length: "length (scannerLines fl) = length (takeWhile deliverable fl)"
  by (induction fl rule: scannerLines.induct) simp_all

lemma scannerLines_short:
  "length (scannerLines fl) < length fl \<longleftrightarrow> (\<exists>l\<in>set fl. \<not> deliverable l)"
  by (induction fl rule: scannerLines.induct) auto

lemma scannerLines_le: "length (scannerLines fl) \<le> length fl"
  by (induction fl rule: scannerLines.induct) simp_all

lemma scannerLines_all:
  "(\<forall>l\<in>set fl. deliverable l) \<Longrightarrow> length (scannerLines fl) = length fl"
  using scannerLines_short [of fl] scannerLines_le [of fl] by auto

lemma scannerLines_onDisk: "scannerLines (onDisk lines) = lines"
  by (induction lines) (simp_all add: onDisk_def maxTokenSize_def)

lemma scan_plainFile_2:
  "scanLines exampleParse 0 (newSessionInfo (str ''/p/abc.jsonl'') (str ''/p''))
     [summaryLine, userLine ''2025-12-30T15:42:00Z''] = (plainInfo, 2)"
proof -
  have b: "laterLine exampleParse (fst (Unmarshal userEntry (userLine ''2025-12-30T15:42:00Z'')))
             summaryInfo = plainInfo"
    by (simp add: later_userLine [OF summaryInfo_ID] plainInfo_def)
       (simp add: summaryInfo_def zeroTime_def IsZero_def str_def)
  have c: "\<not> stopNow plainInfo"
    by (simp add: stopNow_def plainInfo_def summaryInfo_def)
  show ?thesis
    by (simp add: scan_step first_summary decodes_userLine b c numeral_2_eq_2)
qed

text \<open>
  C1, as stated, fails. In a file of 21 lines with the beacon and the start time on line
  2, all of them delivered by the scanner, after 20 lines the beacon is found, the start
  time is set and a line is left, and the scan reads that line too. In a file of 25 lines
  whose lines after the second are not valid JSON, the same holds after 21 lines, and the
  scan reads all 25 lines.
\<close>

theorem reading_stops_counterexample:
  "scannerLines (onDisk (beaconFile 19)) = beaconFile 19 \<and>
   IsGasTown (infoAfter exampleParse (beaconFile 19) (str ''/p/abc.jsonl'') (str ''/p'') 20) \<and>
   \<not> IsZero (StartTime
       (infoAfter exampleParse (beaconFile 19) (str ''/p/abc.jsonl'') (str ''/p'') 20)) \<and>
   20 < length (onDisk (beaconFile 19)) \<and>
   \<not> stopsEarly exampleParse (onDisk (beaconFile 19)) (str ''/p/abc.jsonl'') (str ''/p'') \<and>
   scannerLines (onDisk (brokenFile 23)) = brokenFile 23 \<and>
   IsGasTown (infoAfter exampleParse (brokenFile 23) (str ''/p/abc.jsonl'') (str ''/p'') 21) \<and>
   \<not> IsZero (StartTime
       (infoAfter exampleParse (brokenFile 23) (str ''/p/abc.jsonl'') (str ''/p'') 21)) \<and>
   21 < length (onDisk (brokenFile 23)) \<and>
   \<not> stopsEarly exampleParse (onDisk (brokenFile 23)) (str ''/p/abc.jsonl'') (str ''/p'')"
  by (simp add: infoAfter_def stopsEarly_def linesRead_def scannerLines_onDisk scan_beaconFile
      scan_beaconFile_20 scan_brokenFile scan_brokenFile_21)
    (simp add: exampleInfo_def IsZero_def beaconFile_def brokenFile_def onDisk_def)

text \<open>
  C1, amended. The scan of a file stops before the end of the file exactly when the
  scanner cannot deliver one of its lines (a line of 1 MiB or more, or a read failure:
  the scan ends there without an error), or some delivered line with a number above 20
  that is not the last delivered line decodes without error and, with the lines up to it,
  a beacon has been found and a start time has been set. When the descriptor of a file has
  no beacon, every line has been read up to the end of the file or up to the first line
  the scanner cannot deliver.
\<close>

theorem reading_stops_early:
  "(stopsEarly parseTime file filePath projectPath \<longleftrightarrow>
      (\<exists>l\<in>set file. \<not> deliverable l) \<or>
      (\<exists>k. 20 < k \<and> k < length (scannerLines file) \<and> decodes (scannerLines file ! (k - 1)) \<and>
           IsGasTown (infoAfter parseTime (scannerLines file) filePath projectPath k) \<and>
           \<not> IsZero (StartTime
               (infoAfter parseTime (scannerLines file) filePath projectPath k)))) \<and>
   (parseSession parseTime (Inr (scannerLines file')) filePath' projectPath' = Inr info \<and>
    \<not> IsGasTown info \<longrightarrow>
      linesRead parseTime (scannerLines file') filePath' projectPath' =
        length (takeWhile deliverable file') \<and>
      ((\<forall>l\<in>set file'. deliverable l) \<longrightarrow>
         linesRead parseTime (scannerLines file') filePath' projectPath' = length file'))"
proof
  let ?ls = "scannerLines file"
  let ?early = "\<exists>k. 20 < k \<and> k < length ?ls \<and> decodes (?ls ! (k - 1)) \<and>
           IsGasTown (infoAfter parseTime ?ls filePath projectPath k) \<and>
           \<not> IsZero (StartTime (infoAfter parseTime ?ls filePath projectPath k))"
  have "linesRead parseTime ?ls filePath projectPath < length ?ls \<longleftrightarrow>
        (\<exists>k. earlyAt parseTime 0 (newSessionInfo filePath projectPath) ?ls k)"
    using scan_early_iff [of parseTime 0 "newSessionInfo filePath projectPath" ?ls]
    by (simp add: linesRead_def)
  also have "\<dots> \<longleftrightarrow> ?early"
  proof -
    have "earlyAt parseTime 0 (newSessionInfo filePath projectPath) ?ls k \<longleftrightarrow>
          20 < k \<and> k < length ?ls \<and> decodes (?ls ! (k - 1)) \<and>
          IsGasTown (infoAfter parseTime ?ls filePath projectPath k) \<and>
          \<not> IsZero (StartTime (infoAfter parseTime ?ls filePath projectPath k))" for k
      by (cases "0 < k") (auto simp: earlyAt_def infoAfter_def stopNow_def)
    then show ?thesis by simp
  qed
  finally have early: "linesRead parseTime ?ls filePath projectPath < length ?ls \<longleftrightarrow> ?early" .
  have le: "linesRead parseTime ?ls filePath projectPath \<le> length ?ls"
    using scan_bounds [of 0 parseTime "newSessionInfo filePath projectPath" ?ls]
    by (simp add: linesRead_def)
  show "stopsEarly parseTime file filePath projectPath \<longleftrightarrow>
      (\<exists>l\<in>set file. \<not> deliverable l) \<or> ?early"
  proof (cases "\<exists>l\<in>set file. \<not> deliverable l")
    case True
    then have "length ?ls < length file"
      by (simp add: scannerLines_short)
    with le True show ?thesis
      by (simp add: stopsEarly_def)
  next
    case False
    then have "length ?ls = length file"
      by (intro scannerLines_all) simp
    with early False show ?thesis
      by (simp add: stopsEarly_def)
  qed
next
  show "parseSession parseTime (Inr (scannerLines file')) filePath' projectPath' = Inr info \<and>
    \<not> IsGasTown info \<longrightarrow>
      linesRead parseTime (scannerLines file') filePath' projectPath' =
        length (takeWhile deliverable file') \<and>
      ((\<forall>l\<in>set file'. deliverable l) \<longrightarrow>
         linesRead parseTime (scannerLines file') filePath' projectPath' = length file')"
  proof
    assume h: "parseSession parseTime (Inr (scannerLines file')) filePath' projectPath' =
                 Inr info \<and> \<not> IsGasTown info"
    then have "linesRead parseTime (scannerLines file') filePath' projectPath' =
               length (scannerLines file')"
      using scan_no_beacon_reads_all [of parseTime 0 "newSessionInfo filePath' projectPath'"
          "scannerLines file'"]
      by (auto simp: parseSession_def linesRead_def)
    then show "linesRead parseTime (scannerLines file') filePath' projectPath' =
        length (takeWhile deliverable file') \<and>
      ((\<forall>l\<in>set file'. deliverable l) \<longrightarrow>
         linesRead parseTime (scannerLines file') filePath' projectPath' = length file')"
      using scannerLines_length [of file'] scannerLines_all [of file'] by simp
  qed
qed

theorem reading_stops_early_witness:
  "20 < (21::nat) \<and> 21 < length (scannerLines (onDisk (beaconFile 20))) \<and>
   decodes (scannerLines (onDisk (beaconFile 20)) ! (21 - 1)) \<and>
   IsGasTown (infoAfter exampleParse (scannerLines (onDisk (beaconFile 20)))
                (str ''/p/abc.jsonl'') (str ''/p'') 21) \<and>
   \<not> IsZero (StartTime (infoAfter exampleParse (scannerLines (onDisk (beaconFile 20)))
                (str ''/p/abc.jsonl'') (str ''/p'') 21)) \<and>
   stopsEarly exampleParse (onDisk (beaconFile 20)) (str ''/p/abc.jsonl'') (str ''/p'') \<and>
   \<not> deliverable (FileLine (2 * 1024 * 1024) assistantLine) \<and>
   FileLine (2 * 1024 * 1024) assistantLine \<in> set longLineFile \<and>
   stopsEarly exampleParse longLineFile (str ''/p/abc.jsonl'') (str ''/p'') \<and>
   parseSession exampleParse (Inr (scannerLines longLineFile)) (str ''/p/abc.jsonl'')
     (str ''/p'') = Inr plainInfo \<and>
   \<not> IsGasTown plainInfo \<and>
   linesRead exampleParse (scannerLines longLineFile) (str ''/p/abc.jsonl'') (str ''/p'') = 2 \<and>
   length longLineFile = 4 \<and>
   parseSession exampleParse (Inr (scannerLines (onDisk (plainFile 3)))) (str ''/p/abc.jsonl'')
     (str ''/p'') = Inr plainInfo \<and>
   list_all deliverable (onDisk (plainFile 3)) \<and>
   linesRead exampleParse (scannerLines (onDisk (plainFile 3))) (str ''/p/abc.jsonl'')
     (str ''/p'') = length (onDisk (plainFile 3))"
proof -
  have a: "21 < length (scannerLines (onDisk (beaconFile 20)))"
    by (simp add: scannerLines_onDisk beaconFile_def)
  have b: "decodes (scannerLines (onDisk (beaconFile 20)) ! (21 - 1))"
    by (simp add: scannerLines_onDisk beaconFile_def decodes_assistant nth_Cons')
  have c: "infoAfter exampleParse (scannerLines (onDisk (beaconFile 20))) (str ''/p/abc.jsonl'')
             (str ''/p'') 21 = exampleInfo"
    by (simp add: scannerLines_onDisk infoAfter_def scan_beaconFile_22_21)
  have d: "IsGasTown exampleInfo \<and> \<not> IsZero (StartTime exampleInfo)"
    by (simp add: exampleInfo_def IsZero_def)
  have g: "\<exists>k. 20 < k \<and> k < length (scannerLines (onDisk (beaconFile 20))) \<and>
    decodes (scannerLines (onDisk (beaconFile 20)) ! (k - 1)) \<and>
    IsGasTown (infoAfter exampleParse (scannerLines (onDisk (beaconFile 20)))
                 (str ''/p/abc.jsonl'') (str ''/p'') k) \<and>
    \<not> IsZero (StartTime (infoAfter exampleParse (scannerLines (onDisk (beaconFile 20)))
                 (str ''/p/abc.jsonl'') (str ''/p'') k))"
    using a b c d by (intro exI [of _ 21]) simp
  have e: "\<not> deliverable (FileLine (2 * 1024 * 1024) assistantLine) \<and>
           FileLine (2 * 1024 * 1024) assistantLine \<in> set longLineFile \<and>
           length longLineFile = 4"
    by (simp add: longLineFile_def maxTokenSize_def)
  then have e': "\<exists>l\<in>set longLineFile. \<not> deliverable l"
    by blast
  have sl: "scannerLines longLineFile = [summaryLine, userLine ''2025-12-30T15:42:00Z'']"
    by (simp add: longLineFile_def maxTokenSize_def)
  have f: "parseSession exampleParse (Inr (scannerLines longLineFile)) (str ''/p/abc.jsonl'')
     (str ''/p'') = Inr plainInfo"
    by (simp add: sl parseSession_def scan_plainFile_2)
  have tw: "length (takeWhile deliverable longLineFile) = 2"
    by (simp add: longLineFile_def maxTokenSize_def)
  have h: "\<not> IsGasTown plainInfo"
    by (simp add: plainInfo_def summaryInfo_def)
  have i: "parseSession exampleParse (Inr (scannerLines (onDisk (plainFile 3))))
     (str ''/p/abc.jsonl'') (str ''/p'') = Inr plainInfo"
    by (simp add: scannerLines_onDisk parseSession_def scan_plainFile)
  have j: "\<forall>l\<in>set (onDisk (plainFile 3)). deliverable l"
    by (auto simp: onDisk_def maxTokenSize_def)
  from a b c d g
    reading_stops_early [of exampleParse "onDisk (beaconFile 20)" "str ''/p/abc.jsonl''"
      "str ''/p''" longLineFile "str ''/p/abc.jsonl''" "str ''/p''" plainInfo]
  have one: "stopsEarly exampleParse (onDisk (beaconFile 20)) (str ''/p/abc.jsonl'') (str ''/p'')"
    by blast
  from e' f h tw
    reading_stops_early [of exampleParse longLineFile "str ''/p/abc.jsonl''" "str ''/p''"
      longLineFile "str ''/p/abc.jsonl''" "str ''/p''" plainInfo]
  have two: "stopsEarly exampleParse longLineFile (str ''/p/abc.jsonl'') (str ''/p'') \<and>
    linesRead exampleParse (scannerLines longLineFile) (str ''/p/abc.jsonl'') (str ''/p'') = 2"
    by simp
  from i h j
    reading_stops_early [of exampleParse longLineFile "str ''/p/abc.jsonl''" "str ''/p''"
      "onDisk (plainFile 3)" "str ''/p/abc.jsonl''" "str ''/p''" plainInfo]
  have three: "linesRead exampleParse (scannerLines (onDisk (plainFile 3)))
     (str ''/p/abc.jsonl'') (str ''/p'') = length (onDisk (plainFile 3))"
    by blast
  from a b c d e f h i j one two three show ?thesis
    by (simp add: list_all_iff)
qed

theorem role_topic_imply_beacon_witness:
  "parseSession exampleParse (Inr (beaconFile 19)) (str ''/p/abc.jsonl'') (str ''/p'') =
     Inr exampleInfo \<and>
   Role exampleInfo \<noteq> [] \<and> IsGasTown exampleInfo \<and>
   parseSession exampleParse (Inr (plainFile 3)) (str ''/p/abc.jsonl'') (str ''/p'') =
     Inr plainInfo \<and>
   \<not> IsGasTown plainInfo \<and> Role plainInfo = [] \<and> Topic plainInfo = []"
proof -
  have a: "parseSession exampleParse (Inr (beaconFile 19)) (str ''/p/abc.jsonl'') (str ''/p'') =
     Inr exampleInfo"
    by (simp add: parseSession_def scan_beaconFile)
  have b: "Role exampleInfo \<noteq> []"
    by (simp add: exampleInfo_def str_def)
  have c: "parseSession exampleParse (Inr (plainFile 3)) (str ''/p/abc.jsonl'') (str ''/p'') =
     Inr plainInfo"
    by (simp add: parseSession_def scan_plainFile)
  have d: "\<not> IsGasTown plainInfo"
    by (simp add: plainInfo_def summaryInfo_def)
  from a b c d role_topic_imply_beacon [OF a] role_topic_imply_beacon [OF c]
  show ?thesis by blast
qed

text \<open>
  C5, as stated, fails. In a file whose first user record has the timestamp of the zero
  instant and whose second user record has a later timestamp, both timestamps parse, and
  the start time of the descriptor is the second one, not the first.
\<close>

theorem start_time_counterexample:
  "offeredTimes exampleParse zeroFirstFile =
     [\<lparr>instant = 0, offset = 0\<rparr>, \<lparr>instant = 63902706120000000000, offset = 0\<rparr>] \<and>
   parseSession exampleParse (Inr zeroFirstFile) (str ''/p/abc.jsonl'') (str ''/p'') =
     Inr plainInfo \<and>
   StartTime plainInfo = \<lparr>instant = 63902706120000000000, offset = 0\<rparr> \<and>
   StartTime plainInfo \<noteq> hd (offeredTimes exampleParse zeroFirstFile)"
  by (simp add: offered_zeroFirstFile parseSession_def scan_zeroFirstFile plainInfo_def)

text \<open>
  C5, amended. Within the scan of a file the start time is first-wins: once the
  descriptor has a start time that is not zero, the descriptor after any further lines
  has the same start time; and the beacon is monotonic: once the descriptor is marked as
  beaconed, it stays so with the same role and topic. The start time of the descriptor of
  a file is the timestamp of the first user record after line 1 whose timestamp parses to
  a time that is not the zero instant, and is zero when there is no such record.
\<close>

theorem start_time_first_wins:
  "(j \<le> k \<and> \<not> IsZero (StartTime (infoAfter parseTime lines filePath projectPath j)) \<longrightarrow>
      StartTime (infoAfter parseTime lines filePath projectPath k) =
      StartTime (infoAfter parseTime lines filePath projectPath j)) \<and>
   (j \<le> k \<and> IsGasTown (infoAfter parseTime lines filePath projectPath j) \<longrightarrow>
      IsGasTown (infoAfter parseTime lines filePath projectPath k) \<and>
      Role (infoAfter parseTime lines filePath projectPath k) =
      Role (infoAfter parseTime lines filePath projectPath j) \<and>
      Topic (infoAfter parseTime lines filePath projectPath k) =
      Topic (infoAfter parseTime lines filePath projectPath j)) \<and>
   (parseSession parseTime (Inr lines1) filePath1 projectPath1 = Inr info1 \<and>
    firstNonZero (offeredTimes parseTime lines1) = Some t \<longrightarrow> StartTime info1 = t) \<and>
   (parseSession parseTime (Inr lines2) filePath2 projectPath2 = Inr info2 \<and>
    firstNonZero (offeredTimes parseTime lines2) = None \<longrightarrow> IsZero (StartTime info2))"
proof -
  have mono: "settled (infoAfter parseTime lines filePath projectPath j)
                      (infoAfter parseTime lines filePath projectPath k)" if "j \<le> k"
  proof -
    from that have "take j (take k lines) = take j lines"
      by (simp add: min_def)
    with scan_prefix_settled [of parseTime 0 "newSessionInfo filePath projectPath" j "take k lines"]
    show ?thesis by (simp add: infoAfter_def)
  qed
  have first: "StartTime info1 = t"
    if "parseSession parseTime (Inr lines1) filePath1 projectPath1 = Inr info1"
      and "firstNonZero (offeredTimes parseTime lines1) = Some t"
    using that scan_start_time [of parseTime lines1 filePath1 projectPath1]
    by (auto simp: parseSession_def)
  have none: "IsZero (StartTime info2)"
    if "parseSession parseTime (Inr lines2) filePath2 projectPath2 = Inr info2"
      and "firstNonZero (offeredTimes parseTime lines2) = None"
    using that scan_start_time [of parseTime lines2 filePath2 projectPath2]
    by (auto simp: parseSession_def)
  from mono first none show ?thesis
    unfolding settled_def by blast
qed

theorem start_time_first_wins_witness:
  "(2::nat) \<le> 21 \<and>
   \<not> IsZero (StartTime
       (infoAfter exampleParse (beaconFile 19) (str ''/p/abc.jsonl'') (str ''/p'') 2)) \<and>
   IsGasTown (infoAfter exampleParse (beaconFile 19) (str ''/p/abc.jsonl'') (str ''/p'') 2) \<and>
   StartTime (infoAfter exampleParse (beaconFile 19) (str ''/p/abc.jsonl'') (str ''/p'') 21) =
     \<lparr>instant = 63902706120000000000, offset = 0\<rparr> \<and>
   Role (infoAfter exampleParse (beaconFile 19) (str ''/p/abc.jsonl'') (str ''/p'') 21) =
     str ''deacon'' \<and>
   parseSession exampleParse (Inr zeroFirstFile) (str ''/p/abc.jsonl'') (str ''/p'') =
     Inr plainInfo \<and>
   firstNonZero (offeredTimes exampleParse zeroFirstFile) =
     Some \<lparr>instant = 63902706120000000000, offset = 0\<rparr> \<and>
   StartTime plainInfo = \<lparr>instant = 63902706120000000000, offset = 0\<rparr> \<and>
   parseSession exampleParse (Inr [summaryLine, userLine ''0001-01-01T00:00:00Z''])
     (str ''/p/abc.jsonl'') (str ''/p'') = Inr summaryInfo \<and>
   firstNonZero (offeredTimes exampleParse [summaryLine, userLine ''0001-01-01T00:00:00Z'']) =
     None \<and>
   IsZero (StartTime summaryInfo)"
proof -
  have a: "infoAfter exampleParse (beaconFile 19) (str ''/p/abc.jsonl'') (str ''/p'') 2 =
           exampleInfo"
    by (simp add: infoAfter_def beaconFile_def scan_head)
  have b: "\<not> IsZero (StartTime exampleInfo) \<and> IsGasTown exampleInfo \<and>
           StartTime exampleInfo = \<lparr>instant = 63902706120000000000, offset = 0\<rparr> \<and>
           Role exampleInfo = str ''deacon''"
    by (simp add: exampleInfo_def IsZero_def)
  have c: "parseSession exampleParse (Inr zeroFirstFile) (str ''/p/abc.jsonl'') (str ''/p'') =
     Inr plainInfo"
    by (simp add: parseSession_def scan_zeroFirstFile)
  have d: "firstNonZero (offeredTimes exampleParse zeroFirstFile) =
     Some \<lparr>instant = 63902706120000000000, offset = 0\<rparr>"
    by (simp add: offered_zeroFirstFile firstNonZero_def IsZero_def)
  have e: "parseSession exampleParse (Inr [summaryLine, userLine ''0001-01-01T00:00:00Z''])
     (str ''/p/abc.jsonl'') (str ''/p'') = Inr summaryInfo"
    by (simp add: parseSession_def scan_zeroOnlyFile)
  have f: "firstNonZero (offeredTimes exampleParse
             [summaryLine, userLine ''0001-01-01T00:00:00Z'']) = None"
    by (simp add: offered_zeroOnlyFile firstNonZero_def IsZero_def)
  from a b c d e f
    start_time_first_wins [of 2 21 exampleParse "beaconFile 19" "str ''/p/abc.jsonl''"
      "str ''/p''" zeroFirstFile "str ''/p/abc.jsonl''" "str ''/p''" plainInfo
      "\<lparr>instant = 63902706120000000000, offset = 0\<rparr>"
      "[summaryLine, userLine ''0001-01-01T00:00:00Z'']" "str ''/p/abc.jsonl''" "str ''/p''"
      summaryInfo]
  show ?thesis by (simp add: IsZero_def)
qed

lemma new_example:
  "newSessionInfo (str ''/p/abc.jsonl'') (str ''/p'') = summaryInfo\<lparr>Summary := []\<rparr>"
  by (simp add: newSessionInfo_def summaryInfo_def Base_def TrimSuffix_def HasSuffix_def Let_def
      str_def)

lemma firstSummary_beaconLine: "firstSummary beaconLine = []"
  by (simp add: firstSummary_def beaconLine_def json_eval)

lemma scan_beacon_first:
  "scanLines exampleParse 0 (newSessionInfo (str ''/p/abc.jsonl'') (str ''/p''))
     [beaconLine, assistantLine] = (summaryInfo\<lparr>Summary := []\<rparr>, 2)"
proof -
  have c: "\<not> stopNow (summaryInfo\<lparr>Summary := []\<rparr>)"
    by (simp add: stopNow_def summaryInfo_def)
  have "scanLines exampleParse (Suc 0) (newSessionInfo (str ''/p/abc.jsonl'') (str ''/p''))
          [assistantLine] = (summaryInfo\<lparr>Summary := []\<rparr>, 2)"
    by (simp add: new_example scan_step decodes_assistant later_assistant c)
  then show ?thesis
    by (simp add: scan_first_line firstSummary_beaconLine)
qed

lemma scan_invalid_first:
  "scanLines exampleParse 0 (newSessionInfo (str ''/p/abc.jsonl'') (str ''/p''))
     [Invalid, assistantLine] = (summaryInfo\<lparr>Summary := []\<rparr>, 2)"
proof -
  have c: "\<not> stopNow (summaryInfo\<lparr>Summary := []\<rparr>)"
    by (simp add: stopNow_def summaryInfo_def)
  have "scanLines exampleParse (Suc 0) (newSessionInfo (str ''/p/abc.jsonl'') (str ''/p''))
          [assistantLine] = (summaryInfo\<lparr>Summary := []\<rparr>, 2)"
    by (simp add: new_example scan_step decodes_assistant later_assistant c)
  then show ?thesis
    by (simp add: scan_first_line firstSummary_def)
qed


text \<open>
  C9. The first line of a file is never examined for the fields of a user record: the
  start time, the id, the beacon mark, the role and the topic of the descriptor are the
  same whatever line 1 is, also when line 1 is a user record with a timestamp, a session
  id and a beacon. Line 1 contributes the summary only, and only when it decodes as a
  record of type \<^verbatim>\<open>summary\<close>.
\<close>

theorem first_line_only_summary:
  assumes "parseSession parseTime (Inr (line1 # rest)) filePath projectPath = Inr info"
    and "parseSession parseTime (Inr (other # rest)) filePath projectPath = Inr info'"
  shows "StartTime info = StartTime info' \<and> ID info = ID info' \<and>
         IsGasTown info = IsGasTown info' \<and> Role info = Role info' \<and>
         Topic info = Topic info' \<and> Summary info = firstSummary line1"
proof -
  from assms(1) have a: "info = fst (scanLines parseTime 0 (newSessionInfo filePath projectPath)
                                   (line1 # rest))"
    by (simp add: parseSession_def)
  from assms(2) have b: "info' = fst (scanLines parseTime 0 (newSessionInfo filePath projectPath)
                                   (other # rest))"
    by (simp add: parseSession_def)
  show ?thesis
    unfolding a b by (simp add: scan_first_line)
qed


theorem first_line_only_summary_witness:
  "parseSession exampleParse (Inr [beaconLine, assistantLine]) (str ''/p/abc.jsonl'') (str ''/p'') =
     Inr (summaryInfo\<lparr>Summary := []\<rparr>) \<and>
   parseSession exampleParse (Inr [Invalid, assistantLine]) (str ''/p/abc.jsonl'') (str ''/p'') =
     Inr (summaryInfo\<lparr>Summary := []\<rparr>) \<and>
   \<not> IsGasTown (summaryInfo\<lparr>Summary := []\<rparr>) \<and>
   IsZero (StartTime (summaryInfo\<lparr>Summary := []\<rparr>)) \<and>
   ID (summaryInfo\<lparr>Summary := []\<rparr>) = str ''abc'' \<and>
   Summary (summaryInfo\<lparr>Summary := []\<rparr>) = firstSummary beaconLine"
proof -
  have a: "parseSession exampleParse (Inr [beaconLine, assistantLine]) (str ''/p/abc.jsonl'')
     (str ''/p'') = Inr (summaryInfo\<lparr>Summary := []\<rparr>)"
    by (simp add: parseSession_def scan_beacon_first)
  have b: "parseSession exampleParse (Inr [Invalid, assistantLine]) (str ''/p/abc.jsonl'')
     (str ''/p'') = Inr (summaryInfo\<lparr>Summary := []\<rparr>)"
    by (simp add: parseSession_def scan_invalid_first)
  have c: "\<not> IsGasTown (summaryInfo\<lparr>Summary := []\<rparr>) \<and>
     IsZero (StartTime (summaryInfo\<lparr>Summary := []\<rparr>)) \<and>
     ID (summaryInfo\<lparr>Summary := []\<rparr>) = str ''abc''"
    by (simp add: summaryInfo_def IsZero_def zeroTime_def)
  from a b c first_line_only_summary [OF a b] show ?thesis by blast
qed


section \<open>Properties of session discovery\<close>

lemma scanFiles_listed [simp]:
  "listed (scanFiles p lower flt dir pp files w) = listed w"
  by (induction files arbitrary: w) (auto simp: Let_def split: sum.splits)

lemma scanFiles_parsed:
  "parsed (scanFiles p lower flt dir pp files w) =
     parsed w @ map (\<lambda>sf. Join dir (fileName sf)) (candidates files)"
  by (induction files arbitrary: w) (auto simp: Let_def candidates_def split: sum.splits)

lemma scanEntries_listed:
  "listed (scanEntries p lower flt root entries w) =
     listed w @ map (\<lambda>e. Join root (entryName e)) (filter (passes flt) entries)"
  by (induction entries arbitrary: w) (auto simp: Let_def passes_def split: sum.splits)

lemma scanEntries_parsed:
  "parsed (scanEntries p lower flt root entries w) =
     parsed w @
     concat (map (\<lambda>e. case listing e of
                         Inl err \<Rightarrow> []
                       | Inr files \<Rightarrow>
                           map (\<lambda>sf. Join (Join root (entryName e)) (fileName sf)) (candidates files))
                 (filter (passes flt) entries))"
  by (induction entries arbitrary: w)
     (auto simp: Let_def passes_def scanFiles_parsed split: sum.splits)

declare scanEntries.simps [simp del] scanFiles.simps [simp del]

text \<open>
  C2, as stated, fails. With the rig \<^verbatim>\<open>gastown\<close> in the filter and no path, the project
  directory \<^verbatim>\<open>-Users-stevey-gt-gastown\<close> decodes to a path that contains the rig name, and
  the walk neither reads the directory nor parses a file of it.
\<close>

theorem rig_filter_counterexample:
  "FilterRig rigFilter \<noteq> [] \<and> FilterPath rigFilter = [] \<and> IsDir rigDir \<and>
   Contains (decodePath (entryName rigDir)) (FilterRig rigFilter) \<and>
   listed (discoverWalk exampleParse asciiLower rigFilter (str ''/home/u/.claude/projects'')
             [rigDir]) = [] \<and>
   parsed (discoverWalk exampleParse asciiLower rigFilter (str ''/home/u/.claude/projects'')
             [rigDir]) = []"
proof -
  have a: "FilterRig rigFilter \<noteq> [] \<and> FilterPath rigFilter = [] \<and> IsDir rigDir"
    by (simp add: rigFilter_def rigDir_def str_def)
  have b: "Contains (decodePath (entryName rigDir)) (FilterRig rigFilter)"
    by (simp add: rigFilter_def rigDir_def decodePath_map str_def HasPrefix_def)
  have c: "\<not> passes rigFilter rigDir"
    by (simp add: passes_def rigFilter_def rigDir_def decodePath_map str_def HasPrefix_def)
  from a b c show ?thesis
    by (simp add: discoverWalk_def scanEntries_listed scanEntries_parsed emptyWalk_def)
qed

text \<open>
  C2, amended. When the rig of the filter is not empty, the project directories that the
  walk reads, before any of their files is opened, are the directory entries whose decoded
  path contains the rig name between two slashes and satisfies the path filter; the files
  parsed are the candidate files of these directories and no others.
\<close>

theorem rig_filter:
  "FilterRig flt \<noteq> [] \<longrightarrow>
   listed (discoverWalk parseTime lower flt root entries) =
     map (\<lambda>e. Join root (entryName e))
       (filter (\<lambda>e. IsDir e \<and>
                     Contains (decodePath (entryName e)) (str ''/'' @ FilterRig flt @ str ''/'') \<and>
                     (FilterPath flt = [] \<or>
                      Contains (decodePath (entryName e)) (FilterPath flt))) entries) \<and>
   parsed (discoverWalk parseTime lower flt root entries) =
     concat (map (\<lambda>e. case listing e of
                         Inl err \<Rightarrow> []
                       | Inr files \<Rightarrow>
                           map (\<lambda>sf. Join (Join root (entryName e)) (fileName sf))
                             (candidates files))
       (filter (\<lambda>e. IsDir e \<and>
                     Contains (decodePath (entryName e)) (str ''/'' @ FilterRig flt @ str ''/'') \<and>
                     (FilterPath flt = [] \<or>
                      Contains (decodePath (entryName e)) (FilterPath flt))) entries))"
proof
  assume rig: "FilterRig flt \<noteq> []"
  then have "passes flt = (\<lambda>e. IsDir e \<and>
                     Contains (decodePath (entryName e)) (str ''/'' @ FilterRig flt @ str ''/'') \<and>
                     (FilterPath flt = [] \<or>
                      Contains (decodePath (entryName e)) (FilterPath flt)))"
    by (simp add: passes_def fun_eq_iff)
  then show "listed (discoverWalk parseTime lower flt root entries) =
     map (\<lambda>e. Join root (entryName e))
       (filter (\<lambda>e. IsDir e \<and>
                     Contains (decodePath (entryName e)) (str ''/'' @ FilterRig flt @ str ''/'') \<and>
                     (FilterPath flt = [] \<or>
                      Contains (decodePath (entryName e)) (FilterPath flt))) entries) \<and>
   parsed (discoverWalk parseTime lower flt root entries) =
     concat (map (\<lambda>e. case listing e of
                         Inl err \<Rightarrow> []
                       | Inr files \<Rightarrow>
                           map (\<lambda>sf. Join (Join root (entryName e)) (fileName sf))
                             (candidates files))
       (filter (\<lambda>e. IsDir e \<and>
                     Contains (decodePath (entryName e)) (str ''/'' @ FilterRig flt @ str ''/'') \<and>
                     (FilterPath flt = [] \<or>
                      Contains (decodePath (entryName e)) (FilterPath flt))) entries))"
    using scanEntries_listed [of parseTime lower flt root entries emptyWalk]
      scanEntries_parsed [of parseTime lower flt root entries emptyWalk]
    by (simp add: discoverWalk_def emptyWalk_def)
qed

theorem rig_filter_witness:
  "FilterRig rigFilter \<noteq> [] \<and>
   listed (discoverWalk exampleParse asciiLower rigFilter (str ''/home/u/.claude/projects'')
             [crewDir, rigDir]) =
     [str ''/home/u/.claude/projects/-Users-stevey-gt-gastown-crew-joe''] \<and>
   parsed (discoverWalk exampleParse asciiLower rigFilter (str ''/home/u/.claude/projects'')
             [crewDir, rigDir]) =
     [str ''/home/u/.claude/projects/-Users-stevey-gt-gastown-crew-joe/abc.jsonl'']"
proof -
  have a: "FilterRig rigFilter \<noteq> []"
    by (simp add: rigFilter_def str_def)
  have b: "Contains (decodePath (entryName crewDir)) (str ''/'' @ FilterRig rigFilter @ str ''/'')"
    by (simp add: rigFilter_def crewDir_def decodePath_map str_def HasPrefix_def)
  have c: "\<not> Contains (decodePath (entryName rigDir)) (str ''/'' @ FilterRig rigFilter @ str ''/'')"
    by (simp add: rigFilter_def rigDir_def decodePath_map str_def HasPrefix_def)
  have d: "IsDir crewDir \<and> FilterPath rigFilter = [] \<and>
           listing crewDir = Inr [SessionFile (str ''abc.jsonl'') (Inr [summaryLine, beaconLine])] \<and>
           entryName crewDir = str ''-Users-stevey-gt-gastown-crew-joe''"
    by (simp add: crewDir_def rigFilter_def)
  have e: "candidates [SessionFile (str ''abc.jsonl'') (Inr [summaryLine, beaconLine])] =
           [SessionFile (str ''abc.jsonl'') (Inr [summaryLine, beaconLine])]"
    by (simp add: candidates_def HasSuffix_def HasPrefix_def str_def)
  from a b c d e
    rig_filter [of rigFilter exampleParse asciiLower "str ''/home/u/.claude/projects''"
      "[crewDir, rigDir]"]
  show ?thesis
    by (simp add: Join_def) (simp add: str_def)
qed


lemma scanFiles_Cons:
  "scanFiles p lower flt dir pp (sf # rest) w =
     scanFiles p lower flt dir pp rest (scanFiles p lower flt dir pp [sf] w)"
  by (simp add: scanFiles.simps Let_def split: sum.splits)

lemma scanFiles_one_sessions:
  "sessions (scanFiles p lower flt dir pp [sf] w) =
     sessions w @ fileSessions p lower flt dir pp sf"
  by (simp add: fileSessions_def scanFiles.simps Let_def emptyWalk_def split: sum.splits)

lemma scanFiles_sessions:
  "sessions (scanFiles p lower flt dir pp files w) =
     sessions w @ concat (map (fileSessions p lower flt dir pp) files)"
proof (induction files arbitrary: w)
  case Nil
  show ?case by (simp add: scanFiles.simps)
next
  case (Cons sf rest)
  have "sessions (scanFiles p lower flt dir pp (sf # rest) w) =
        sessions (scanFiles p lower flt dir pp rest (scanFiles p lower flt dir pp [sf] w))"
    by (subst scanFiles_Cons) simp
  also have "\<dots> = sessions (scanFiles p lower flt dir pp [sf] w) @
      concat (map (fileSessions p lower flt dir pp) rest)"
    by (rule Cons.IH)
  finally show ?case by (simp add: scanFiles_one_sessions)
qed

lemma fileSessions_unopened:
  "opened sf = Inl err \<Longrightarrow> fileSessions p lower flt dir pp sf = []"
  by (simp add: fileSessions_def scanFiles.simps Let_def emptyWalk_def parseSession_def)

lemma scanEntries_Cons:
  "scanEntries p lower flt root (e # rest) w =
     scanEntries p lower flt root rest (scanEntries p lower flt root [e] w)"
  by (simp add: scanEntries.simps Let_def split: sum.splits)

lemma scanEntries_one_sessions:
  "sessions (scanEntries p lower flt root [e] w) =
     sessions w @ entrySessions p lower flt root e"
  by (simp add: entrySessions_def scanEntries.simps Let_def emptyWalk_def scanFiles_sessions
      split: sum.splits)

lemma scanEntries_sessions:
  "sessions (scanEntries p lower flt root entries w) =
     sessions w @ concat (map (entrySessions p lower flt root) entries)"
proof (induction entries arbitrary: w)
  case Nil
  show ?case by (simp add: scanEntries.simps)
next
  case (Cons e rest)
  have "sessions (scanEntries p lower flt root (e # rest) w) =
        sessions (scanEntries p lower flt root rest (scanEntries p lower flt root [e] w))"
    by (subst scanEntries_Cons) simp
  also have "\<dots> = sessions (scanEntries p lower flt root [e] w) @
      concat (map (entrySessions p lower flt root) rest)"
    by (rule Cons.IH)
  finally show ?case by (simp add: scanEntries_one_sessions)
qed

lemma entrySessions_unlisted:
  "listing e = Inl err \<Longrightarrow> entrySessions p lower flt root e = []"
  by (simp add: entrySessions_def scanEntries.simps Let_def emptyWalk_def)

lemma walk_skip_dir:
  assumes "listing e = Inl err"
  shows "sessions (discoverWalk p lower flt root (es1 @ e # es2)) =
         sessions (discoverWalk p lower flt root (es1 @ es2))"
  using entrySessions_unlisted [OF assms]
  by (simp add: discoverWalk_def scanEntries_sessions)

lemma entrySessions_skip_file:
  assumes "opened sf = Inl err"
  shows "entrySessions p lower flt root (DirEntry name d (Inr (fs1 @ sf # fs2))) =
         entrySessions p lower flt root (DirEntry name d (Inr (fs1 @ fs2)))"
  using fileSessions_unopened [OF assms]
  by (simp add: entrySessions_def scanEntries.simps Let_def scanFiles_sessions)

lemma walk_skip_file:
  assumes "opened sf = Inl err"
  shows "sessions (discoverWalk p lower flt root
                    (ds1 @ DirEntry name d (Inr (fs1 @ sf # fs2)) # ds2)) =
         sessions (discoverWalk p lower flt root
                    (ds1 @ DirEntry name d (Inr (fs1 @ fs2)) # ds2))"
  using entrySessions_skip_file [OF assms]
  by (simp add: discoverWalk_def scanEntries_sessions)

lemma fileSessions_eq:
  "fileSessions p lower flt dir pp = sessionsOfFile p lower flt dir pp"
  by (rule ext)
     (simp add: fileSessions_def sessionsOfFile_def keeps_def scanFiles.simps Let_def
        emptyWalk_def split: sum.splits)

lemma entrySessions_eq:
  "entrySessions p lower flt root = sessionsOfEntry p lower flt root"
  by (rule ext)
     (simp add: entrySessions_def sessionsOfEntry_def passes_def scanEntries.simps Let_def
        emptyWalk_def scanFiles_sessions fileSessions_eq split: sum.splits)

lemma walk_sessions:
  "sessions (discoverWalk p lower flt root entries) =
     concat (map (sessionsOfEntry p lower flt root) entries)"
  by (simp add: discoverWalk_def scanEntries_sessions emptyWalk_def entrySessions_eq)

text \<open>
  C8. When the projects directory does not exist, \<open>DiscoverSessions\<close> returns the empty
  result and no error. It returns an error exactly when the directory is not reported
  absent and cannot be enumerated, and the error is that of the enumeration. In every
  other case it returns, sorted and cut to the limit, what the entries of the projects
  directory contribute one by one, where a project directory that cannot be read and a
  file that cannot be opened contribute nothing and every other unit contributes its
  sessions, whatever failed before it. So the result is the one for the storage without
  the units that cannot be read.
\<close>

theorem discover_errors:
  "(statNotExist fs \<longrightarrow> DiscoverSessions parseTime lower sortSlice fs flt = Inr []) \<and>
   (DiscoverSessions parseTime lower sortSlice fs flt = Inl err \<longleftrightarrow>
      \<not> statNotExist fs \<and> rootListing fs = Inl err) \<and>
   (\<not> statNotExist fsa \<and> rootListing fsa = Inr entries \<longrightarrow>
      DiscoverSessions parseTime lower sortSlice fsa flt =
      Inr (applyLimit flt
            (sortSessions sortSlice
              (concat (map (sessionsOfEntry parseTime lower flt (projectsDir fsa)) entries))))) \<and>
   (rootListing fsb = Inr (esa @ e # esb) \<and> listing e = Inl erra \<longrightarrow>
      DiscoverSessions parseTime lower sortSlice fsb flt =
      DiscoverSessions parseTime lower sortSlice (fsb\<lparr>rootListing := Inr (esa @ esb)\<rparr>) flt) \<and>
   (rootListing fsc = Inr (dsa @ DirEntry name d (Inr (sfsa @ sf # sfsb)) # dsb) \<and>
    opened sf = Inl errb \<longrightarrow>
      DiscoverSessions parseTime lower sortSlice fsc flt =
      DiscoverSessions parseTime lower sortSlice
        (fsc\<lparr>rootListing := Inr (dsa @ DirEntry name d (Inr (sfsa @ sfsb)) # dsb)\<rparr>) flt)"
proof -
  have a: "statNotExist fs \<longrightarrow> DiscoverSessions parseTime lower sortSlice fs flt = Inr []"
    by (simp add: DiscoverSessions_def)
  have b: "DiscoverSessions parseTime lower sortSlice fs flt = Inl err \<longleftrightarrow>
      \<not> statNotExist fs \<and> rootListing fs = Inl err"
    by (auto simp: DiscoverSessions_def split: sum.splits)
  have c: "DiscoverSessions parseTime lower sortSlice fsa flt =
      Inr (applyLimit flt
            (sortSessions sortSlice
              (concat (map (sessionsOfEntry parseTime lower flt (projectsDir fsa)) entries))))"
    if "\<not> statNotExist fsa" "rootListing fsa = Inr entries"
    using that by (simp add: DiscoverSessions_def walk_sessions)
  have d: "DiscoverSessions parseTime lower sortSlice fsb flt =
      DiscoverSessions parseTime lower sortSlice (fsb\<lparr>rootListing := Inr (esa @ esb)\<rparr>) flt"
    if "rootListing fsb = Inr (esa @ e # esb)" "listing e = Inl erra"
    using that walk_skip_dir [of e erra parseTime lower flt "projectsDir fsb" esa esb]
    by (simp add: DiscoverSessions_def)
  have e: "DiscoverSessions parseTime lower sortSlice fsc flt =
      DiscoverSessions parseTime lower sortSlice
        (fsc\<lparr>rootListing := Inr (dsa @ DirEntry name d (Inr (sfsa @ sfsb)) # dsb)\<rparr>) flt"
    if "rootListing fsc = Inr (dsa @ DirEntry name d (Inr (sfsa @ sf # sfsb)) # dsb)"
      "opened sf = Inl errb"
    using that walk_skip_file [of sf errb parseTime lower flt "projectsDir fsc" dsa name d
        sfsa sfsb dsb]
    by (simp add: DiscoverSessions_def)
  from a b c d e show ?thesis by blast
qed

subsection \<open>Discovery on the example storage\<close>

lemma firstSummary_summaryLine: "firstSummary summaryLine = str ''Fix the build''"
  by (simp add: firstSummary_def summaryLine_def json_eval)

lemma later_beacon_any:
  assumes "IsZero (StartTime info)" and "ID info \<noteq> []" and "\<not> IsGasTown info"
  shows "laterLine exampleParse beaconEntry info =
         info\<lparr>StartTime := \<lparr>instant = 63902706120000000000, offset = 0\<rparr>,
              IsGasTown := True, Role := str ''deacon'', Topic := str ''patrol''\<rparr>"
proof -
  have ts: "getString beaconEntry (str ''timestamp'') = str ''2025-12-30T15:42:00Z''"
    by (simp add: beaconEntry_def getString_def str_def)
  have ty: "getString beaconEntry (str ''type'') = str ''user''"
    by (simp add: beaconEntry_def getString_def str_def)
  have ne: "str ''2025-12-30T15:42:00Z'' \<noteq> []"
    by (simp add: str_def)
  from assms ts ne have a: "setStartTime exampleParse beaconEntry info =
      info\<lparr>StartTime := \<lparr>instant = 63902706120000000000, offset = 0\<rparr>\<rparr>"
    by (simp add: setStartTime_def)
  from assms have b: "setSessionID beaconEntry
      (info\<lparr>StartTime := \<lparr>instant = 63902706120000000000, offset = 0\<rparr>\<rparr>) =
      info\<lparr>StartTime := \<lparr>instant = 63902706120000000000, offset = 0\<rparr>\<rparr>"
    by (simp add: setSessionID_def)
  from assms have c: "setBeacon beaconEntry
      (info\<lparr>StartTime := \<lparr>instant = 63902706120000000000, offset = 0\<rparr>\<rparr>) =
      info\<lparr>StartTime := \<lparr>instant = 63902706120000000000, offset = 0\<rparr>,
           IsGasTown := True, Role := str ''deacon'', Topic := str ''patrol''\<rparr>"
    by (simp add: setBeacon_def beacon_of_entry)
  from a b c ty show ?thesis
    by (simp add: laterLine_def userRecord_def)
qed

lemma parse_goodFile:
  assumes "TrimSuffix (Base fp) (str ''.jsonl'') \<noteq> []"
  shows "parseSession exampleParse (Inr [summaryLine, beaconLine]) fp pp =
         Inr \<lparr>ID = TrimSuffix (Base fp) (str ''.jsonl''), Path = pp, Role = str ''deacon'',
              Topic = str ''patrol'',
              StartTime = \<lparr>instant = 63902706120000000000, offset = 0\<rparr>,
              Summary = str ''Fix the build'', IsGasTown = True, FilePath = fp\<rparr>"
proof -
  let ?first = "(newSessionInfo fp pp)\<lparr>Summary := str ''Fix the build''\<rparr>"
  let ?info = "?first\<lparr>StartTime := \<lparr>instant = 63902706120000000000, offset = 0\<rparr>,
                 IsGasTown := True, Role := str ''deacon'', Topic := str ''patrol''\<rparr>"
  from assms have later: "laterLine exampleParse beaconEntry ?first = ?info"
    by (intro later_beacon_any) (simp_all add: newSessionInfo_def IsZero_def zeroTime_def)
  have "scanLines exampleParse 0 (newSessionInfo fp pp) [summaryLine, beaconLine] =
        scanLines exampleParse (Suc 0) ?first [beaconLine]"
    by (simp add: scan_step firstLine_new firstSummary_summaryLine)
  also have "\<dots> = (?info, Suc (Suc 0))"
    using later by (simp add: scan_step decodes_def unmarshal_beacon)
  finally show ?thesis
    by (simp add: parseSession_def newSessionInfo_def)
qed

lemma names_example:
  "HasSuffix (str ''abc.jsonl'') (str ''.jsonl'')" "\<not> HasPrefix (str ''abc.jsonl'') (str ''agent-'')"
  "HasSuffix (str ''def.jsonl'') (str ''.jsonl'')" "\<not> HasPrefix (str ''def.jsonl'') (str ''agent-'')"
  by (simp_all add: HasSuffix_def HasPrefix_def str_def)

lemma keeps_all: "keeps lower allFilter info"
  by (simp add: keeps_def roleKeeps_def allFilter_def)

lemma passes_all: "passes allFilter e = IsDir e"
  by (simp add: passes_def allFilter_def)

lemma file_locked: "sessionsOfFile exampleParse asciiLower allFilter dir pp lockedFile = []"
  by (simp add: sessionsOfFile_def lockedFile_def parseSession_def)

lemma file_max:
  "sessionsOfFile exampleParse asciiLower allFilter
     (Join projectsPath (str ''-Users-stevey-gt-gastown-crew-max''))
     (decodePath (str ''-Users-stevey-gt-gastown-crew-max'')) goodFile = [maxInfo]"
proof -
  have a: "TrimSuffix (Base (Join (Join projectsPath (str ''-Users-stevey-gt-gastown-crew-max''))
             (str ''abc.jsonl''))) (str ''.jsonl'') = str ''abc''"
    by (simp add: Join_def projectsPath_def Base_def TrimSuffix_def HasSuffix_def Let_def str_def)
  have b: "str ''abc'' \<noteq> []"
    by (simp add: str_def)
  have c: "decodePath (str ''-Users-stevey-gt-gastown-crew-max'') =
           str ''/Users/stevey/gt/gastown/crew/max''"
    by (simp add: decodePath_map str_def)
  have d: "Join (Join projectsPath (str ''-Users-stevey-gt-gastown-crew-max'')) (str ''abc.jsonl'') =
           str ''/home/u/.claude/projects/-Users-stevey-gt-gastown-crew-max/abc.jsonl''"
    by (simp add: Join_def projectsPath_def str_def)
  from a b have "parseSession exampleParse (Inr [summaryLine, beaconLine])
      (Join (Join projectsPath (str ''-Users-stevey-gt-gastown-crew-max'')) (str ''abc.jsonl''))
      (decodePath (str ''-Users-stevey-gt-gastown-crew-max'')) = Inr maxInfo"
    by (subst parse_goodFile) (simp_all add: c d maxInfo_def)
  then show ?thesis
    by (simp add: sessionsOfFile_def goodFile_def names_example keeps_all)
qed

lemma file_joe:
  "sessionsOfFile exampleParse asciiLower allFilter
     (Join projectsPath (str ''-Users-stevey-gt-gastown-crew-joe''))
     (decodePath (str ''-Users-stevey-gt-gastown-crew-joe''))
     (SessionFile (str ''abc.jsonl'') (Inr [summaryLine, beaconLine])) = [joeInfo]"
proof -
  have a: "TrimSuffix (Base (Join (Join projectsPath (str ''-Users-stevey-gt-gastown-crew-joe''))
             (str ''abc.jsonl''))) (str ''.jsonl'') = str ''abc''"
    by (simp add: Join_def projectsPath_def Base_def TrimSuffix_def HasSuffix_def Let_def str_def)
  have b: "str ''abc'' \<noteq> []"
    by (simp add: str_def)
  have c: "decodePath (str ''-Users-stevey-gt-gastown-crew-joe'') =
           str ''/Users/stevey/gt/gastown/crew/joe''"
    by (simp add: decodePath_map str_def)
  have d: "Join (Join projectsPath (str ''-Users-stevey-gt-gastown-crew-joe'')) (str ''abc.jsonl'') =
           str ''/home/u/.claude/projects/-Users-stevey-gt-gastown-crew-joe/abc.jsonl''"
    by (simp add: Join_def projectsPath_def str_def)
  from a b have "parseSession exampleParse (Inr [summaryLine, beaconLine])
      (Join (Join projectsPath (str ''-Users-stevey-gt-gastown-crew-joe'')) (str ''abc.jsonl''))
      (decodePath (str ''-Users-stevey-gt-gastown-crew-joe'')) = Inr joeInfo"
    by (subst parse_goodFile) (simp_all add: c d joeInfo_def)
  then show ?thesis
    by (simp add: sessionsOfFile_def names_example keeps_all)
qed

lemma entry_locked: "sessionsOfEntry exampleParse asciiLower allFilter root lockedDir = []"
  by (simp add: sessionsOfEntry_def lockedDir_def)

lemma entry_max:
  "sessionsOfEntry exampleParse asciiLower allFilter projectsPath
     (DirEntry (str ''-Users-stevey-gt-gastown-crew-max'') True (Inr [lockedFile, goodFile])) =
   [maxInfo]"
  by (simp add: sessionsOfEntry_def passes_all file_locked file_max)

lemma entry_joe:
  "sessionsOfEntry exampleParse asciiLower allFilter projectsPath crewDir = [joeInfo]"
  by (simp add: sessionsOfEntry_def passes_all crewDir_def file_joe)

lemma sort_two_equal:
  "\<not> lessFn y x \<Longrightarrow> Slice lessFn [x, y] = [x, y]"
  by (simp add: Slice_def pdqsort_func.simps insertionSort_func_def insertionOuter.simps
      insertionInner.simps Less_def)

lemma walk_faulty:
  "listed (discoverWalk exampleParse asciiLower allFilter projectsPath
     ([] @ lockedDir #
       [DirEntry (str ''-Users-stevey-gt-gastown-crew-max'') True
          (Inr ([] @ lockedFile # [goodFile])),
        crewDir])) =
     [str ''/home/u/.claude/projects/-Users-stevey-gt-beads'',
      str ''/home/u/.claude/projects/-Users-stevey-gt-gastown-crew-max'',
      str ''/home/u/.claude/projects/-Users-stevey-gt-gastown-crew-joe'']"
  "parsed (discoverWalk exampleParse asciiLower allFilter projectsPath
     ([] @ lockedDir #
       [DirEntry (str ''-Users-stevey-gt-gastown-crew-max'') True
          (Inr ([] @ lockedFile # [goodFile])),
        crewDir])) =
     [str ''/home/u/.claude/projects/-Users-stevey-gt-gastown-crew-max/def.jsonl'',
      str ''/home/u/.claude/projects/-Users-stevey-gt-gastown-crew-max/abc.jsonl'',
      str ''/home/u/.claude/projects/-Users-stevey-gt-gastown-crew-joe/abc.jsonl'']"
proof -
  have c: "candidates [lockedFile, goodFile] = [lockedFile, goodFile]"
    "candidates [SessionFile (str ''abc.jsonl'') (Inr [summaryLine, beaconLine])] =
       [SessionFile (str ''abc.jsonl'') (Inr [summaryLine, beaconLine])]"
    by (simp_all add: candidates_def lockedFile_def goodFile_def names_example)
  show "listed (discoverWalk exampleParse asciiLower allFilter projectsPath
     ([] @ lockedDir #
       [DirEntry (str ''-Users-stevey-gt-gastown-crew-max'') True
          (Inr ([] @ lockedFile # [goodFile])),
        crewDir])) =
     [str ''/home/u/.claude/projects/-Users-stevey-gt-beads'',
      str ''/home/u/.claude/projects/-Users-stevey-gt-gastown-crew-max'',
      str ''/home/u/.claude/projects/-Users-stevey-gt-gastown-crew-joe'']"
    by (simp add: discoverWalk_def scanEntries_listed emptyWalk_def passes_all lockedDir_def
        crewDir_def Join_def projectsPath_def)
       (simp add: str_def)
  show "parsed (discoverWalk exampleParse asciiLower allFilter projectsPath
     ([] @ lockedDir #
       [DirEntry (str ''-Users-stevey-gt-gastown-crew-max'') True
          (Inr ([] @ lockedFile # [goodFile])),
        crewDir])) =
     [str ''/home/u/.claude/projects/-Users-stevey-gt-gastown-crew-max/def.jsonl'',
      str ''/home/u/.claude/projects/-Users-stevey-gt-gastown-crew-max/abc.jsonl'',
      str ''/home/u/.claude/projects/-Users-stevey-gt-gastown-crew-joe/abc.jsonl'']"
    by (simp add: discoverWalk_def scanEntries_parsed emptyWalk_def passes_all lockedDir_def
        crewDir_def c)
       (simp add: Join_def projectsPath_def lockedFile_def goodFile_def str_def)
qed

theorem discover_errors_witness:
  "statNotExist absentStorage \<and>
   DiscoverSessions exampleParse asciiLower Slice absentStorage allFilter = Inr [] \<and>
   \<not> statNotExist deniedStorage \<and> rootListing deniedStorage = Inl (PathError projectsPath) \<and>
   DiscoverSessions exampleParse asciiLower Slice deniedStorage allFilter =
     Inl (PathError projectsPath) \<and>
   \<not> statNotExist faultyStorage \<and>
   rootListing faultyStorage =
     Inr ([] @ lockedDir #
       [DirEntry (str ''-Users-stevey-gt-gastown-crew-max'') True
          (Inr ([] @ lockedFile # [goodFile])),
        crewDir]) \<and>
   listing lockedDir = Inl (PathError (str ''-Users-stevey-gt-beads'')) \<and>
   opened lockedFile = Inl (PathError (str ''def.jsonl'')) \<and>
   listed (discoverWalk exampleParse asciiLower allFilter projectsPath
     ([] @ lockedDir #
       [DirEntry (str ''-Users-stevey-gt-gastown-crew-max'') True
          (Inr ([] @ lockedFile # [goodFile])),
        crewDir])) =
     [str ''/home/u/.claude/projects/-Users-stevey-gt-beads'',
      str ''/home/u/.claude/projects/-Users-stevey-gt-gastown-crew-max'',
      str ''/home/u/.claude/projects/-Users-stevey-gt-gastown-crew-joe''] \<and>
   parsed (discoverWalk exampleParse asciiLower allFilter projectsPath
     ([] @ lockedDir #
       [DirEntry (str ''-Users-stevey-gt-gastown-crew-max'') True
          (Inr ([] @ lockedFile # [goodFile])),
        crewDir])) =
     [str ''/home/u/.claude/projects/-Users-stevey-gt-gastown-crew-max/def.jsonl'',
      str ''/home/u/.claude/projects/-Users-stevey-gt-gastown-crew-max/abc.jsonl'',
      str ''/home/u/.claude/projects/-Users-stevey-gt-gastown-crew-joe/abc.jsonl''] \<and>
   DiscoverSessions exampleParse asciiLower Slice faultyStorage allFilter =
     Inr [maxInfo, joeInfo] \<and>
   DiscoverSessions exampleParse asciiLower Slice
     (faultyStorage\<lparr>rootListing := Inr ([] @
       [DirEntry (str ''-Users-stevey-gt-gastown-crew-max'') True
          (Inr ([] @ lockedFile # [goodFile])),
        crewDir])\<rparr>) allFilter =
     Inr [maxInfo, joeInfo] \<and>
   DiscoverSessions exampleParse asciiLower Slice
     (faultyStorage\<lparr>rootListing := Inr ([lockedDir] @
       DirEntry (str ''-Users-stevey-gt-gastown-crew-max'') True (Inr ([] @ [goodFile])) #
       [crewDir])\<rparr>) allFilter =
     Inr [maxInfo, joeInfo]"
proof -
  have a: "statNotExist absentStorage"
    by (simp add: absentStorage_def)
  have b: "\<not> statNotExist deniedStorage \<and> rootListing deniedStorage = Inl (PathError projectsPath)"
    by (simp add: deniedStorage_def)
  have c: "\<not> statNotExist faultyStorage \<and>
     rootListing faultyStorage =
       Inr ([] @ lockedDir #
         [DirEntry (str ''-Users-stevey-gt-gastown-crew-max'') True
            (Inr ([] @ lockedFile # [goodFile])),
          crewDir]) \<and>
     projectsDir faultyStorage = projectsPath"
    by (simp add: faultyStorage_def)
  have d: "listing lockedDir = Inl (PathError (str ''-Users-stevey-gt-beads'')) \<and>
           opened lockedFile = Inl (PathError (str ''def.jsonl''))"
    by (simp add: lockedDir_def lockedFile_def)
  from c have c': "rootListing faultyStorage =
       Inr ([lockedDir] @
         DirEntry (str ''-Users-stevey-gt-gastown-crew-max'') True
            (Inr ([] @ lockedFile # [goodFile])) # [crewDir])"
    by simp
  have tie: "\<not> byStartTimeDesc joeInfo maxInfo"
    by (simp add: byStartTimeDesc_def After_def joeInfo_def maxInfo_def)
  have lim: "applyLimit allFilter ss = ss" for ss
    by (simp add: applyLimit_def allFilter_def)
  note th = discover_errors [where parseTime = exampleParse and lower = asciiLower
      and sortSlice = Slice and flt = allFilter and err = "PathError projectsPath"
      and fsa = faultyStorage
      and entries = "[] @ lockedDir #
         [DirEntry (str ''-Users-stevey-gt-gastown-crew-max'') True
            (Inr ([] @ lockedFile # [goodFile])), crewDir]"
      and fsb = faultyStorage and esa = "[]" and e = lockedDir
      and esb = "[DirEntry (str ''-Users-stevey-gt-gastown-crew-max'') True
            (Inr ([] @ lockedFile # [goodFile])), crewDir]"
      and erra = "PathError (str ''-Users-stevey-gt-beads'')"
      and fsc = faultyStorage and dsa = "[lockedDir]"
      and name = "str ''-Users-stevey-gt-gastown-crew-max''" and d = True and sfsa = "[]"
      and sf = lockedFile and sfsb = "[goodFile]" and dsb = "[crewDir]"
      and errb = "PathError (str ''def.jsonl'')"]
  from a th [where fs = absentStorage]
  have r1: "DiscoverSessions exampleParse asciiLower Slice absentStorage allFilter = Inr []"
    by blast
  from b th [where fs = deniedStorage]
  have r2: "DiscoverSessions exampleParse asciiLower Slice deniedStorage allFilter =
            Inl (PathError projectsPath)"
    by blast
  from c th [where fs = absentStorage]
  have "DiscoverSessions exampleParse asciiLower Slice faultyStorage allFilter =
      Inr (applyLimit allFilter
            (sortSessions Slice
              (concat (map (sessionsOfEntry exampleParse asciiLower allFilter
                              (projectsDir faultyStorage))
                 ([] @ lockedDir #
                   [DirEntry (str ''-Users-stevey-gt-gastown-crew-max'') True
                      (Inr ([] @ lockedFile # [goodFile])), crewDir])))))"
    by blast
  with c tie have r3: "DiscoverSessions exampleParse asciiLower Slice faultyStorage allFilter =
      Inr [maxInfo, joeInfo]"
    by (simp add: lim sortSessions_def entry_locked entry_max entry_joe sort_two_equal)
  from c d th [where fs = absentStorage]
  have r4: "DiscoverSessions exampleParse asciiLower Slice faultyStorage allFilter =
      DiscoverSessions exampleParse asciiLower Slice
        (faultyStorage\<lparr>rootListing := Inr ([] @
          [DirEntry (str ''-Users-stevey-gt-gastown-crew-max'') True
             (Inr ([] @ lockedFile # [goodFile])), crewDir])\<rparr>) allFilter"
    by blast
  from c' d th [where fs = absentStorage]
  have r5: "DiscoverSessions exampleParse asciiLower Slice faultyStorage allFilter =
      DiscoverSessions exampleParse asciiLower Slice
        (faultyStorage\<lparr>rootListing := Inr ([lockedDir] @
          DirEntry (str ''-Users-stevey-gt-gastown-crew-max'') True (Inr ([] @ [goodFile])) #
          [crewDir])\<rparr>) allFilter"
    by blast
  from a b c d r1 r2 r3 r4 r5 walk_faulty show ?thesis
    by simp
qed

section \<open>Properties of sorting and filtering\<close>



subsection \<open>Sorting the example slices\<close>

lemma start_example [simp]:
  "StartTime (witnessSession name t) = t"
  "StartTime (idle name) = zeroTime"
  "StartTime deaconSession = hoursLater 0"
  by (simp_all add: witnessSession_def idle_def deaconSession_def hoursLater_def)

lemma after_example [simp]:
  "After (hoursLater m) (hoursLater n) = (n < m)"
  "After zeroTime zeroTime = False"
  "After (hoursLater 0) zeroTime = True"
  "After zeroTime (hoursLater 0) = False"
  by (simp_all add: After_def hoursLater_def zeroTime_def)

lemma keeps_example [simp]:
  "roleKeeps asciiLower witnessFilter (witnessSession name t)"
  "roleKeeps asciiLower witnessFilter (idle name)"
  "\<not> roleKeeps asciiLower witnessFilter deaconSession"
  by (simp_all add: roleKeeps_def witnessFilter_def witnessSession_def idle_def
      deaconSession_def ToLower_def asciiLower_def HasPrefix_def str_def)

















end
